theory Spec2Isabelle
  imports Complex_Main
begin

section \<open>JavaScript values and built-ins used by the driver\<close>

text \<open>
  A JSON-shaped JavaScript value, as the cloud API returns it and as the command
  parameters carry it. Numbers are exact rationals (every finite double is one); the
  code only compares and rounds them. \<open>NaN\<close> is the value \<open>None\<close> of \<open>Number\<close> below.
  Arrays do not occur in the parameters the driver reads and are not modelled.
\<close>

datatype jsval =
    JUndefined
  | JNull
  | JBool bool
  | JNum rat
  | JStr string
  | JObj "(string \<times> jsval) list"

text \<open>A JavaScript object used as a dictionary of parameters: \<open>{...a}\<close> copies it,
  \<open>p.k = v\<close> is \<open>p(k \<mapsto> v)\<close>.\<close>

type_synonym params = "string \<rightharpoonup> jsval"

text \<open>\<open>x || {}\<close> for a parameter object that may still be \<open>undefined\<close>.\<close>

definition or_empty :: "params option \<Rightarrow> params" where
  "or_empty p = (case p of None \<Rightarrow> Map.empty | Some m \<Rightarrow> m)"

text \<open>\<open>s || d\<close> for a string that may be \<open>null\<close>/\<open>undefined\<close>: the empty string is falsy.\<close>

definition or_str :: "string option \<Rightarrow> string \<Rightarrow> string" where
  "or_str s d = (case s of None \<Rightarrow> d | Some x \<Rightarrow> if x = [] then d else x)"

text \<open>\<open>String.prototype.split\<close> with a one-character separator.\<close>

fun split_char :: "char \<Rightarrow> string \<Rightarrow> string list" where
  "split_char c [] = [[]]"
| "split_char c (x # xs) =
     (if x = c then [] # split_char c xs
      else (case split_char c xs of [] \<Rightarrow> [[x]] | w # ws \<Rightarrow> (x # w) # ws))"

text \<open>\<open>String.prototype.toUpperCase\<close> on the ASCII letters; other bytes are kept.\<close>

definition toUpperCase_char :: "char \<Rightarrow> char" where
  "toUpperCase_char c =
     (case map_of (zip ''abcdefghijklmnopqrstuvwxyz'' ''ABCDEFGHIJKLMNOPQRSTUVWXYZ'') c of
        None \<Rightarrow> c | Some u \<Rightarrow> u)"

definition toUpperCase :: "string \<Rightarrow> string" where
  "toUpperCase s = map toUpperCase_char s"

text \<open>\<open>String(n)\<close> for an integral number: its decimal digits (JavaScript prints
  them so below \<open>10\<^sup>2\<^sup>1\<close>).\<close>

definition digit_char :: "nat \<Rightarrow> char" where
  "digit_char n = ''0123456789'' ! n"

fun digits :: "nat \<Rightarrow> string" where
  "digits n = (if n < 10 then [digit_char n] else digits (n div 10) @ [digit_char (n mod 10)])"

declare digits.simps [simp del]

definition String_int :: "int \<Rightarrow> string" where
  "String_int i = (if i < 0 then CHR ''-'' # digits (nat (- i)) else digits (nat i))"

text \<open>\<open>Math.round\<close>: the nearest integer, a half rounding up.\<close>

definition Math_round :: "rat \<Rightarrow> int" where
  "Math_round x = \<lfloor>x + 1 / 2\<rfloor>"

text \<open>JavaScript truthiness.\<close>

fun truthy :: "jsval \<Rightarrow> bool" where
  "truthy JUndefined = False"
| "truthy JNull = False"
| "truthy (JBool b) = b"
| "truthy (JNum r) = (r \<noteq> 0)"
| "truthy (JStr s) = (s \<noteq> [])"
| "truthy (JObj kvs) = True"

text \<open>Property read \<open>o[k]\<close> and the test \<open>k in o\<close> on an object literal.\<close>

definition js_get :: "(string \<times> jsval) list \<Rightarrow> string \<Rightarrow> jsval" where
  "js_get kvs k = (case map_of kvs k of None \<Rightarrow> JUndefined | Some v \<Rightarrow> v)"

definition js_in :: "string \<Rightarrow> (string \<times> jsval) list \<Rightarrow> bool" where
  "js_in k kvs = (map_of kvs k \<noteq> None)"

text \<open>
  \<open>Number(v)\<close>, with \<open>None\<close> for \<open>NaN\<close>. How JavaScript reads a string as a number
  (whitespace, signs, fractions, exponents, hexadecimal) is the parameter \<open>N\<close>.
\<close>

fun Number :: "(string \<Rightarrow> rat option) \<Rightarrow> jsval \<Rightarrow> rat option" where
  "Number N JUndefined = None"
| "Number N JNull = Some 0"
| "Number N (JBool b) = Some (if b then 1 else 0)"
| "Number N (JNum r) = Some r"
| "Number N (JStr s) = N s"
| "Number N (JObj kvs) = None"

text \<open>An instance of the string reader for evaluation: unsigned decimal integers, and
  the empty string as 0.\<close>

definition digit_val :: "char \<Rightarrow> nat option" where
  "digit_val c = map_of (zip ''0123456789'' [0, 1, 2, 3, 4, 5, 6, 7, 8, 9]) c"

fun dec_value :: "nat \<Rightarrow> string \<Rightarrow> nat option" where
  "dec_value acc [] = Some acc"
| "dec_value acc (c # cs) =
     (case digit_val c of None \<Rightarrow> None | Some d \<Rightarrow> dec_value (10 * acc + d) cs)"

definition dec_number :: "string \<Rightarrow> rat option" where
  "dec_number s = map_option of_nat (dec_value 0 s)"


section \<open>drivers/aircon/device.js: the enum tables\<close>

text \<open>
  Each table is an object literal read with \<open>table[key]\<close>; a key it does not hold reads
  as \<open>undefined\<close>, here \<open>None\<close>. The tables keyed by a capability value are read with
  the values of the capability's enumeration; the names every object inherits
  (\<open>constructor\<close>, \<open>toString\<close> and the like) are not among them and are not modelled.
\<close>

definition HON_TO_HVAC_MODE :: "rat \<Rightarrow> string option" where
  "HON_TO_HVAC_MODE v =
     (if v = 0 then Some ''auto''
      else if v = 1 then Some ''cool''
      else if v = 2 then Some ''dry''
      else if v = 3 then Some ''dry''
      else if v = 4 then Some ''heat''
      else if v = 5 then Some ''fan_only''
      else if v = 6 then Some ''fan_only''
      else None)"

definition HVAC_MODE_TO_HON :: "string \<Rightarrow> int option" where
  "HVAC_MODE_TO_HON m =
     (if m = ''auto'' then Some 0
      else if m = ''cool'' then Some 1
      else if m = ''heat'' then Some 4
      else if m = ''dry'' then Some 2
      else if m = ''fan_only'' then Some 6
      else if m = ''10_heating'' then Some 4
      else None)"

definition HON_TO_FAN_SPEED :: "rat \<Rightarrow> string option" where
  "HON_TO_FAN_SPEED v =
     (if v = 1 then Some ''high''
      else if v = 2 then Some ''medium''
      else if v = 3 then Some ''low''
      else if v = 4 then Some ''auto''
      else if v = 5 then Some ''auto''
      else None)"

definition FAN_SPEED_TO_HON :: "string \<Rightarrow> int option" where
  "FAN_SPEED_TO_HON s =
     (if s = ''high'' then Some 1
      else if s = ''medium'' then Some 2
      else if s = ''low'' then Some 3
      else if s = ''auto'' then Some 5
      else None)"

definition HVAC_MODE_TO_PROGRAM :: "string \<Rightarrow> string option" where
  "HVAC_MODE_TO_PROGRAM m =
     (if m = ''auto'' then Some ''IOT_AUTO''
      else if m = ''cool'' then Some ''IOT_COOL''
      else if m = ''heat'' then Some ''IOT_HEAT''
      else if m = ''dry'' then Some ''IOT_DRY''
      else if m = ''fan_only'' then Some ''IOT_FAN''
      else if m = ''10_heating'' then Some ''IOT_10_HEATING''
      else None)"

definition HON_TO_ECO_PILOT :: "rat \<Rightarrow> string option" where
  "HON_TO_ECO_PILOT v =
     (if v = 0 then Some ''off''
      else if v = 1 then Some ''avoid''
      else if v = 2 then Some ''follow''
      else None)"

text \<open>\<open>TOGGLE_CAPABILITIES\<close>: capability, wire parameter, inverted.\<close>

definition TOGGLE_CAPABILITIES :: "(string \<times> string \<times> bool) list" where
  "TOGGLE_CAPABILITIES =
     [(''hon_silent_mode'', ''muteStatus'', False),
      (''hon_rapid_mode'', ''rapidMode'', False),
      (''hon_sleep_mode'', ''silentSleepStatus'', False),
      (''hon_screen_display'', ''screenDisplayStatus'', False),
      (''hon_echo_mode'', ''echoStatus'', True),
      (''hon_eco_mode'', ''ecoMode'', False),
      (''hon_health_mode'', ''healthMode'', False)]"

text \<open>Wire to capability as \<open>_updateCapabilities\<close> reads a mode that is not anti-freeze:
  \<open>HON_TO_HVAC_MODE[modeValue] || 'auto'\<close>.\<close>

definition wire_to_hvac_mode :: "rat \<Rightarrow> string" where
  "wire_to_hvac_mode v = or_str (HON_TO_HVAC_MODE v) ''auto''"


section \<open>Canonical MAC address\<close>

text \<open>\<open>s.split('#')[0]\<close>; indexing an empty array would give \<open>undefined\<close>.\<close>

definition split_hash_first :: "string \<Rightarrow> string option" where
  "split_hash_first s = (case split_char CHR ''#'' s of [] \<Rightarrow> None | p # ps \<Rightarrow> Some p)"

text \<open>\<open>onInit\<close>: \<open>rawId = this.getData().id || ''\<close>, \<open>deviceId = rawId.split('#')[0]\<close>.\<close>

definition onInit_deviceId :: "string option \<Rightarrow> string option" where
  "onInit_deviceId data_id = split_hash_first (or_str data_id [])"

text \<open>\<open>onPairListDevices\<close>: \<open>fullMac = ac.macAddress || ac.applianceId || ''\<close>,
  \<open>macAddress = fullMac.split('#')[0]\<close>.\<close>

definition onPairListDevices_macAddress :: "string option \<Rightarrow> string option \<Rightarrow> string option" where
  "onPairListDevices_macAddress macAddress applianceId =
     split_hash_first (or_str macAddress (or_str applianceId []))"


section \<open>lib/HonApi.js: the command envelope\<close>

text \<open>
  The body that \<open>sendCommand\<close> posts to \<open>/commands/v1/send\<close>. The fixed \<open>device\<close> and
  \<open>attributes\<close> blocks are constants of the client and are left out; the timestamp is an
  input (the clock's ISO string).
\<close>

record command =
  macAddress :: string
  timestamp :: string
  commandName :: string
  transactionId :: string
  applianceOptions :: params
  ancillaryParameters :: params
  parameters :: params
  applianceType :: string
  programName :: "string option"

text \<open>The \<open>options\<close> argument of \<open>sendCommand\<close>.\<close>

record send_options =
  opt_programName :: "string option"
  opt_ancillaryParameters :: "params option"
  opt_applianceOptions :: "params option"

definition sendCommand_payload ::
  "string \<Rightarrow> string \<Rightarrow> string \<Rightarrow> params option \<Rightarrow> send_options \<Rightarrow> command" where
  "sendCommand_payload now_iso mac name ps options =
     \<lparr> macAddress = mac,
       timestamp = now_iso,
       commandName = name,
       transactionId = mac @ ''_'' @ now_iso,
       applianceOptions = or_empty (opt_applianceOptions options),
       ancillaryParameters = or_empty (opt_ancillaryParameters options),
       parameters = or_empty ps,
       applianceType = ''AC'',
       programName =
         (if name = ''startProgram''
          then Some (toUpperCase (or_str (opt_programName options) ''iot_auto''))
          else None) \<rparr>"


section \<open>drivers/aircon/device.js: the device and its commands\<close>

datatype error =
    ApiNotAvailable
  | TemperatureFixedInAntiFreeze
  | UnknownHvacMode string
  | UnknownFanSpeed string
  | UnknownSwingMode string
  | SendCommandFailed

text \<open>
  The device object: its identity, the parameter sets fetched from the command
  definitions (\<open>undefined\<close> until fetched), the stored capability values (\<open>None\<close> is
  \<open>null\<close>), and the poll suppression. \<open>api\<close> says whether \<open>_getApi()\<close> yields a client.
  Three fields record effects: \<open>sent\<close> lists the envelopes handed to
  \<open>api.sendCommand\<close>, oldest first; \<open>timers\<close> the due times of the \<open>setTimeout\<close> callbacks;
  \<open>triggers\<close> the flow cards fired. \<open>setCapabilityValue\<close> is taken to succeed.
  A private method \<open>_setOnOff\<close> of the source is \<open>setOnOff\<close> here, and so on.
\<close>

record device =
  deviceId :: string
  api :: bool
  mandatoryParams :: "params option"
  ancillaryParams :: "params option"
  applianceOptions_of :: "params option"
  capabilities :: "string list"
  onoff :: "bool option"
  target_temperature :: "rat option"
  measure_temperature :: "rat option"
  measure_temperature_indoor :: "rat option"
  measure_temperature_outdoor :: "rat option"
  hon_hvac_mode :: "string option"
  hon_fan_speed :: "string option"
  hon_swing_mode :: "string option"
  hon_eco_pilot :: "string option"
  toggles :: "string \<rightharpoonup> bool"
  skipPollUntil :: nat
  timers :: "nat list"
  sent :: "command list"
  triggers :: "(string \<times> string) list"

text \<open>What one call sees of the outside: \<open>Date.now()\<close>, its ISO string, and whether
  \<open>api.sendCommand\<close> resolves.\<close>

record env =
  now :: nat
  now_iso :: string
  send_ok :: bool

definition hasCapability :: "device \<Rightarrow> string \<Rightarrow> bool" where
  "hasCapability d c = (c \<in> set (capabilities d))"

text \<open>\<open>getCapabilityValue('target_temperature') || 16\<close>: \<open>null\<close> and 0 are falsy.\<close>

definition or_num :: "rat option \<Rightarrow> rat \<Rightarrow> rat" where
  "or_num x d = (case x of None \<Rightarrow> d | Some r \<Rightarrow> if r = 0 then d else r)"

text \<open>\<open>table[key] ?? d\<close>.\<close>

definition nullish :: "int option \<Rightarrow> int \<Rightarrow> int" where
  "nullish x d = (case x of None \<Rightarrow> d | Some v \<Rightarrow> v)"

text \<open>\<open>await api.sendCommand(this.deviceId, name, params, {programName, ancillaryParameters,
  applianceOptions})\<close>: the envelope is recorded, and the call resolves or rejects.\<close>

definition api_sendCommand ::
  "env \<Rightarrow> string \<Rightarrow> params \<Rightarrow> string option \<Rightarrow> device \<Rightarrow> (error + unit) \<times> device" where
  "api_sendCommand e name ps prog d =
     (let c = sendCommand_payload (now_iso e) (deviceId d) name (Some ps)
                \<lparr> opt_programName = prog,
                  opt_ancillaryParameters = Some (or_empty (ancillaryParams d)),
                  opt_applianceOptions = Some (or_empty (applianceOptions_of d)) \<rparr>
      in (if send_ok e then Inr () else Inl SendCommandFailed, d\<lparr>sent := sent d @ [c]\<rparr>))"

text \<open>The tail of every setter: skip regular polls for 10 s, then poll afresh.\<close>

definition skip_polls :: "env \<Rightarrow> device \<Rightarrow> device" where
  "skip_polls e d = d\<lparr>skipPollUntil := now e + 10000, timers := timers d @ [now e + 10000]\<rparr>"

definition setOnOff :: "env \<Rightarrow> bool \<Rightarrow> device \<Rightarrow> (error + unit) \<times> device" where
  "setOnOff e v d =
     (if \<not> api d then (Inl ApiNotAvailable, d)
      else
        (case
           (if v then
              (let currentMode = or_str (hon_hvac_mode d) ''auto'';
                   prog = or_str (HVAC_MODE_TO_PROGRAM currentMode) ''IOT_AUTO'';
                   machMode = nullish (HVAC_MODE_TO_HON currentMode) 0;
                   ps = (or_empty (mandatoryParams d))
                          (''onOffStatus'' \<mapsto> JStr ''1'',
                           ''machMode'' \<mapsto> JStr (String_int machMode))
               in api_sendCommand e ''startProgram'' ps (Some prog) d)
            else
              (let ps = (or_empty (mandatoryParams d))(''onOffStatus'' \<mapsto> JStr ''0'')
               in api_sendCommand e ''stopProgram'' ps None d))
         of (Inl err, d1) \<Rightarrow> (Inl err, d1)
          | (Inr u, d1) \<Rightarrow> (Inr (), skip_polls e d1)))"

definition setTargetTemperature :: "env \<Rightarrow> rat \<Rightarrow> device \<Rightarrow> (error + unit) \<times> device" where
  "setTargetTemperature e v d =
     (if \<not> api d then (Inl ApiNotAvailable, d)
      else
        (let currentMode = or_str (hon_hvac_mode d) ''auto'' in
         if currentMode = ''10_heating'' then (Inl TemperatureFixedInAntiFreeze, d)
         else
           (let v1 = (if v < 16 then 16 else v);
                v2 = (if v1 > 30 then 30 else v1);
                machMode = nullish (HVAC_MODE_TO_HON currentMode) 0;
                currentFanSpeed = or_str (hon_fan_speed d) ''auto'';
                windSpeed = nullish (FAN_SPEED_TO_HON currentFanSpeed) 4;
                ps = (or_empty (mandatoryParams d))
                       (''onOffStatus'' \<mapsto> JStr ''1'',
                        ''tempSel'' \<mapsto> JStr (String_int (Math_round v2)),
                        ''machMode'' \<mapsto> JStr (String_int machMode),
                        ''windSpeed'' \<mapsto> JStr (String_int windSpeed))
            in (case api_sendCommand e ''settings'' ps None d of
                  (Inl err, d1) \<Rightarrow> (Inl err, d1)
                | (Inr u, d1) \<Rightarrow> (Inr (), skip_polls e d1)))))"

definition setHvacMode :: "env \<Rightarrow> string \<Rightarrow> device \<Rightarrow> (error + unit) \<times> device" where
  "setHvacMode e v d =
     (if \<not> api d then (Inl ApiNotAvailable, d)
      else if v = ''10_heating'' then
        (let ps = (or_empty (mandatoryParams d))
                    (''onOffStatus'' \<mapsto> JStr ''1'',
                     ''machMode'' \<mapsto> JStr ''4'',
                     ''10degreeHeatingStatus'' \<mapsto> JStr ''1'')
         in (case api_sendCommand e ''startProgram'' ps (Some ''IOT_10_HEATING'') d of
               (Inl err, d1) \<Rightarrow> (Inl err, d1)
             | (Inr u, d1) \<Rightarrow>
                 (Inr (), skip_polls e (d1\<lparr>target_temperature := Some 10, onoff := Some True\<rparr>))))
      else
        (case HVAC_MODE_TO_HON v of
           None \<Rightarrow> (Inl (UnknownHvacMode v), d)
         | Some machMode \<Rightarrow>
             (let t0 = or_num (target_temperature d) 16;
                  currentTemp = (if t0 < 16 then 16 else t0);
                  currentFanSpeed = or_str (hon_fan_speed d) ''auto'';
                  windSpeed = nullish (FAN_SPEED_TO_HON currentFanSpeed) 5;
                  prog = or_str (HVAC_MODE_TO_PROGRAM v) ''IOT_AUTO'';
                  ps = (or_empty (mandatoryParams d))
                         (''onOffStatus'' \<mapsto> JStr ''1'',
                          ''machMode'' \<mapsto> JStr (String_int machMode),
                          ''tempSel'' \<mapsto> JStr (String_int (Math_round currentTemp)),
                          ''windSpeed'' \<mapsto> JStr (String_int windSpeed),
                          ''10degreeHeatingStatus'' \<mapsto> JStr ''0'')
              in (case api_sendCommand e ''startProgram'' ps (Some prog) d of
                    (Inl err, d1) \<Rightarrow> (Inl err, d1)
                  | (Inr u, d1) \<Rightarrow>
                      (Inr (), skip_polls e
                         (d1\<lparr>target_temperature := Some currentTemp, onoff := Some True\<rparr>))))))"

text \<open>The three setters that send \<open>settings\<close> share their tail: anti-freeze, when
  active, is preserved by sending its flag.\<close>

definition preserve_anti_freeze :: "string \<Rightarrow> params \<Rightarrow> params" where
  "preserve_anti_freeze currentMode ps =
     (if currentMode = ''10_heating'' then ps(''10degreeHeatingStatus'' \<mapsto> JStr ''1'') else ps)"

definition setFanSpeed :: "env \<Rightarrow> string \<Rightarrow> device \<Rightarrow> (error + unit) \<times> device" where
  "setFanSpeed e v d =
     (if \<not> api d then (Inl ApiNotAvailable, d)
      else
        (case FAN_SPEED_TO_HON v of
           None \<Rightarrow> (Inl (UnknownFanSpeed v), d)
         | Some windSpeed \<Rightarrow>
             (let currentTemp = or_num (target_temperature d) 16;
                  currentMode = or_str (hon_hvac_mode d) ''auto'';
                  machMode = nullish (HVAC_MODE_TO_HON currentMode) 0;
                  ps = preserve_anti_freeze currentMode
                         ((or_empty (mandatoryParams d))
                            (''onOffStatus'' \<mapsto> JStr ''1'',
                             ''tempSel'' \<mapsto> JStr (String_int (Math_round currentTemp)),
                             ''machMode'' \<mapsto> JStr (String_int machMode),
                             ''windSpeed'' \<mapsto> JStr (String_int windSpeed)))
              in (case api_sendCommand e ''settings'' ps None d of
                    (Inl err, d1) \<Rightarrow> (Inl err, d1)
                  | (Inr u, d1) \<Rightarrow> (Inr (), skip_polls e d1)))))"

definition swing_directions :: "string \<Rightarrow> (string \<times> string) option" where
  "swing_directions v =
     (if v = ''off'' then Some (''0'', ''5'')
      else if v = ''vertical'' then Some (''0'', ''8'')
      else if v = ''horizontal'' then Some (''7'', ''5'')
      else if v = ''both'' then Some (''7'', ''8'')
      else None)"

definition setSwingMode :: "env \<Rightarrow> string \<Rightarrow> device \<Rightarrow> (error + unit) \<times> device" where
  "setSwingMode e v d =
     (if \<not> api d then (Inl ApiNotAvailable, d)
      else
        (case swing_directions v of
           None \<Rightarrow> (Inl (UnknownSwingMode v), d)
         | Some (windDirectionHorizontal, windDirectionVertical) \<Rightarrow>
             (let currentTemp = or_num (target_temperature d) 16;
                  currentMode = or_str (hon_hvac_mode d) ''auto'';
                  machMode = nullish (HVAC_MODE_TO_HON currentMode) 0;
                  currentFanSpeed = or_str (hon_fan_speed d) ''auto'';
                  windSpeed = nullish (FAN_SPEED_TO_HON currentFanSpeed) 4;
                  ps = preserve_anti_freeze currentMode
                         ((or_empty (mandatoryParams d))
                            (''onOffStatus'' \<mapsto> JStr ''1'',
                             ''tempSel'' \<mapsto> JStr (String_int (Math_round currentTemp)),
                             ''machMode'' \<mapsto> JStr (String_int machMode),
                             ''windSpeed'' \<mapsto> JStr (String_int windSpeed),
                             ''windDirectionHorizontal'' \<mapsto> JStr windDirectionHorizontal,
                             ''windDirectionVertical'' \<mapsto> JStr windDirectionVertical))
              in (case api_sendCommand e ''settings'' ps None d of
                    (Inl err, d1) \<Rightarrow> (Inl err, d1)
                  | (Inr u, d1) \<Rightarrow> (Inr (), skip_polls e d1)))))"

definition setToggle :: "env \<Rightarrow> string \<Rightarrow> string \<Rightarrow> device \<Rightarrow> (error + unit) \<times> device" where
  "setToggle e paramName apiValue d =
     (if \<not> api d then (Inl ApiNotAvailable, d)
      else
        (let currentMode = or_str (hon_hvac_mode d) ''auto'';
             machMode = nullish (HVAC_MODE_TO_HON currentMode) 0;
             t0 = or_num (target_temperature d) 16;
             currentTemp = (if t0 < 16 then 16 else t0);
             currentFanSpeed = or_str (hon_fan_speed d) ''auto'';
             windSpeed = nullish (FAN_SPEED_TO_HON currentFanSpeed) 5;
             ps = (preserve_anti_freeze currentMode
                     ((or_empty (mandatoryParams d))
                        (''onOffStatus'' \<mapsto> JStr (if onoff d = Some True then ''1'' else ''0''),
                         ''machMode'' \<mapsto> JStr (String_int machMode),
                         ''tempSel'' \<mapsto> JStr (String_int (Math_round currentTemp)),
                         ''windSpeed'' \<mapsto> JStr (String_int windSpeed))))
                  (paramName \<mapsto> JStr apiValue)
         in (case api_sendCommand e ''settings'' ps None d of
               (Inl err, d1) \<Rightarrow> (Inl err, d1)
             | (Inr u, d1) \<Rightarrow> (Inr (), skip_polls e d1))))"

text \<open>Every capability listener and flow action of the device ends in one of the six
  setters.\<close>

datatype request =
    SetOnOff bool
  | SetTargetTemperature rat
  | SetHvacMode string
  | SetFanSpeed string
  | SetSwingMode string
  | SetToggle string string

fun perform :: "env \<Rightarrow> request \<Rightarrow> device \<Rightarrow> (error + unit) \<times> device" where
  "perform e (SetOnOff v) d = setOnOff e v d"
| "perform e (SetTargetTemperature v) d = setTargetTemperature e v d"
| "perform e (SetHvacMode v) d = setHvacMode e v d"
| "perform e (SetFanSpeed v) d = setFanSpeed e v d"
| "perform e (SetSwingMode v) d = setSwingMode e v d"
| "perform e (SetToggle p v) d = setToggle e p v d"

text \<open>The envelopes a call added to the log.\<close>

definition issued :: "device \<Rightarrow> device \<Rightarrow> command list" where
  "issued d d' = drop (length (sent d)) (sent d')"


section \<open>Sample inputs\<close>

definition example_env :: env where
  "example_env = \<lparr> now = 1000, now_iso = ''2025-01-01T00:00:00.000Z'', send_ok = True \<rparr>"

text \<open>A device in cooling mode at 22 degrees whose mandatory set holds the anti-freeze
  flag and a vane position.\<close>

definition example_device :: device where
  "example_device =
     \<lparr> deviceId = ''AB-CD'',
       api = True,
       mandatoryParams =
         Some [''10degreeHeatingStatus'' \<mapsto> JStr ''0'', ''windDirectionVertical'' \<mapsto> JStr ''5''],
       ancillaryParams = None,
       applianceOptions_of = None,
       capabilities = [''onoff'', ''target_temperature'', ''hon_hvac_mode'', ''hon_fan_speed''],
       onoff = Some True,
       target_temperature = Some 22,
       measure_temperature = None,
       measure_temperature_indoor = None,
       measure_temperature_outdoor = None,
       hon_hvac_mode = Some ''cool'',
       hon_fan_speed = Some ''low'',
       hon_swing_mode = None,
       hon_eco_pilot = None,
       toggles = Map.empty,
       skipPollUntil = 0,
       timers = [],
       sent = [],
       triggers = [] \<rparr>"

text \<open>The same device in anti-freeze mode; before its command definitions were fetched;
  and in anti-freeze mode while the app has no API client.\<close>

definition example_device_anti_freeze :: device where
  "example_device_anti_freeze =
     example_device\<lparr>hon_hvac_mode := Some ''10_heating'', target_temperature := Some 10\<rparr>"


definition example_device_no_api :: device where
  "example_device_no_api = example_device_anti_freeze\<lparr>api := False\<rparr>"


section \<open>drivers/aircon/device.js: polled state to capabilities\<close>

text \<open>\<open>_extractValue\<close>: a wire value is a bare scalar or an object carrying the scalar
  under \<open>parNewVal\<close> or \<open>parValue\<close>.\<close>

definition extractValue :: "jsval \<Rightarrow> jsval" where
  "extractValue v =
     (case v of
        JObj kvs \<Rightarrow>
          if js_in ''parNewVal'' kvs then js_get kvs ''parNewVal''
          else if js_in ''parValue'' kvs then js_get kvs ''parValue''
          else v
      | _ \<Rightarrow> v)"

text \<open>\<open>Number(this._extractValue(state[k]))\<close> on the polled state object.\<close>

definition reading :: "(string \<Rightarrow> rat option) \<Rightarrow> (string \<times> jsval) list \<Rightarrow> string \<Rightarrow> rat option" where
  "reading N st k = Number N (extractValue (js_get st k))"

definition is10Heating :: "(string \<Rightarrow> rat option) \<Rightarrow> (string \<times> jsval) list \<Rightarrow> bool" where
  "is10Heating N st = (reading N st ''10degreeHeatingStatus'' = Some 1)"

text \<open>The blocks of \<open>_updateCapabilities\<close>, in the order of the source.\<close>

definition update_onoff ::
  "(string \<Rightarrow> rat option) \<Rightarrow> (string \<times> jsval) list \<Rightarrow> device \<Rightarrow> device" where
  "update_onoff N st d =
     (if js_get st ''onOffStatus'' \<noteq> JUndefined
      then d\<lparr>onoff := Some (reading N st ''onOffStatus'' = Some 1)\<rparr>
      else d)"

definition update_indoor ::
  "(string \<Rightarrow> rat option) \<Rightarrow> (string \<times> jsval) list \<Rightarrow> device \<Rightarrow> device" where
  "update_indoor N st d =
     (if js_get st ''tempIndoor'' \<noteq> JUndefined then
        (case reading N st ''tempIndoor'' of
           None \<Rightarrow> d
         | Some temp \<Rightarrow>
             (let d1 = d\<lparr>measure_temperature := Some temp\<rparr>
              in if hasCapability d ''measure_temperature.indoor''
                 then d1\<lparr>measure_temperature_indoor := Some temp\<rparr>
                 else d1))
      else d)"

definition update_target_temperature ::
  "(string \<Rightarrow> rat option) \<Rightarrow> (string \<times> jsval) list \<Rightarrow> device \<Rightarrow> device" where
  "update_target_temperature N st d =
     (if is10Heating N st then d\<lparr>target_temperature := Some 10\<rparr>
      else if js_get st ''tempSel'' \<noteq> JUndefined then
        (case reading N st ''tempSel'' of
           None \<Rightarrow> d
         | Some temp \<Rightarrow> if temp \<ge> 16 then d\<lparr>target_temperature := Some temp\<rparr> else d)
      else d)"

definition update_hvac_mode ::
  "(string \<Rightarrow> rat option) \<Rightarrow> (string \<times> jsval) list \<Rightarrow> device \<Rightarrow> device" where
  "update_hvac_mode N st d =
     (if js_get st ''machMode'' \<noteq> JUndefined \<and> hasCapability d ''hon_hvac_mode'' then
        (let prevMode = hon_hvac_mode d;
             newMode =
               (if is10Heating N st then ''10_heating''
                else (case reading N st ''machMode'' of
                        None \<Rightarrow> ''auto''
                      | Some modeValue \<Rightarrow> wire_to_hvac_mode modeValue));
             d1 = d\<lparr>hon_hvac_mode := Some newMode\<rparr>
         in if Some newMode \<noteq> prevMode
            then d1\<lparr>triggers := triggers d1 @ [(''hon_hvac_mode_changed'', newMode)]\<rparr>
            else d1)
      else d)"

definition update_fan_speed ::
  "(string \<Rightarrow> rat option) \<Rightarrow> (string \<times> jsval) list \<Rightarrow> device \<Rightarrow> device" where
  "update_fan_speed N st d =
     (if js_get st ''windSpeed'' \<noteq> JUndefined \<and> hasCapability d ''hon_fan_speed'' then
        (let prevSpeed = hon_fan_speed d;
             speed =
               (case reading N st ''windSpeed'' of
                  None \<Rightarrow> ''auto''
                | Some speedValue \<Rightarrow> or_str (HON_TO_FAN_SPEED speedValue) ''auto'');
             d1 = d\<lparr>hon_fan_speed := Some speed\<rparr>
         in if Some speed \<noteq> prevSpeed
            then d1\<lparr>triggers := triggers d1 @ [(''hon_fan_speed_changed'', speed)]\<rparr>
            else d1)
      else d)"

definition update_swing_mode ::
  "(string \<Rightarrow> rat option) \<Rightarrow> (string \<times> jsval) list \<Rightarrow> device \<Rightarrow> device" where
  "update_swing_mode N st d =
     (if hasCapability d ''hon_swing_mode'' then
        (let horizontal = reading N st ''windDirectionHorizontal'';
             vertical = reading N st ''windDirectionVertical'';
             swingMode =
               (if horizontal = Some 7 \<and> vertical = Some 8 then ''both''
                else if horizontal = Some 7 then ''horizontal''
                else if vertical = Some 8 then ''vertical''
                else ''off'')
         in d\<lparr>hon_swing_mode := Some swingMode\<rparr>)
      else d)"

definition update_eco_pilot ::
  "(string \<Rightarrow> rat option) \<Rightarrow> (string \<times> jsval) list \<Rightarrow> device \<Rightarrow> device" where
  "update_eco_pilot N st d =
     (if js_get st ''humanSensingStatus'' \<noteq> JUndefined \<and> hasCapability d ''hon_eco_pilot'' then
        (let prevPilot = hon_eco_pilot d;
             mode =
               (case reading N st ''humanSensingStatus'' of
                  None \<Rightarrow> ''off''
                | Some val \<Rightarrow> or_str (HON_TO_ECO_PILOT val) ''off'');
             d1 = d\<lparr>hon_eco_pilot := Some mode\<rparr>
         in if Some mode \<noteq> prevPilot
            then d1\<lparr>triggers := triggers d1 @ [(''hon_eco_pilot_changed'', mode)]\<rparr>
            else d1)
      else d)"

fun update_toggle ::
  "(string \<Rightarrow> rat option) \<Rightarrow> (string \<times> jsval) list \<Rightarrow> string \<times> string \<times> bool \<Rightarrow> device \<Rightarrow> device" where
  "update_toggle N st (capability, param, inverted) d =
     (if js_get st param \<noteq> JUndefined \<and> hasCapability d capability then
        (let val = (reading N st param = Some 1)
         in d\<lparr>toggles := (toggles d)(capability \<mapsto> (if inverted then \<not> val else val))\<rparr>)
      else d)"

definition update_toggles ::
  "(string \<Rightarrow> rat option) \<Rightarrow> (string \<times> jsval) list \<Rightarrow> device \<Rightarrow> device" where
  "update_toggles N st d = fold (update_toggle N st) TOGGLE_CAPABILITIES d"

definition update_outdoor ::
  "(string \<Rightarrow> rat option) \<Rightarrow> (string \<times> jsval) list \<Rightarrow> device \<Rightarrow> device" where
  "update_outdoor N st d =
     (if hasCapability d ''measure_temperature.outdoor'' then
        (let a = js_get st ''tempOutdoor'';
             outdoor = (if truthy a then a else js_get st ''tempAirOutdoor'')
         in if outdoor \<noteq> JUndefined then
              (case Number N (extractValue outdoor) of
                 None \<Rightarrow> d
               | Some temp \<Rightarrow> d\<lparr>measure_temperature_outdoor := Some temp\<rparr>)
            else d)
      else d)"

definition updateCapabilities ::
  "(string \<Rightarrow> rat option) \<Rightarrow> (string \<times> jsval) list \<Rightarrow> device \<Rightarrow> device" where
  "updateCapabilities N st d =
     update_outdoor N st
       (update_toggles N st
          (update_eco_pilot N st
             (update_swing_mode N st
                (update_fan_speed N st
                   (update_hvac_mode N st
                      (update_target_temperature N st
                         (update_indoor N st
                            (update_onoff N st d))))))))"

text \<open>A polled state in which the anti-freeze flag is set while \<open>machMode\<close> says cool and
  \<open>tempSel\<close> says 22.\<close>

definition example_state :: "(string \<times> jsval) list" where
  "example_state =
     [(''onOffStatus'', JObj [(''parNewVal'', JStr ''1''), (''lastUpdate'', JStr ''2025-01-01'')]),
      (''machMode'', JObj [(''parNewVal'', JStr ''1''), (''lastUpdate'', JStr ''2025-01-01'')]),
      (''tempSel'', JObj [(''parNewVal'', JStr ''22''), (''lastUpdate'', JStr ''2025-01-01'')]),
      (''10degreeHeatingStatus'', JStr ''1'')]"

text \<open>A polled state with the anti-freeze flag set and no \<open>machMode\<close>.\<close>

definition example_state_no_machMode :: "(string \<times> jsval) list" where
  "example_state_no_machMode =
     [(''10degreeHeatingStatus'', JStr ''1''), (''tempSel'', JStr ''25'')]"


section \<open>lib/HonApi.js: the session and the authenticated request\<close>

text \<open>Times are milliseconds since the epoch, as \<open>Date.now()\<close> gives them.\<close>

definition TOKEN_LIFETIME_MS :: rat where
  "TOKEN_LIFETIME_MS = 8 * 60 * 60 * 1000"

definition TOKEN_EXPIRY_BUFFER :: rat where
  "TOKEN_EXPIRY_BUFFER = 60 * 60 * 1000"

definition AUTH_API :: string where
  "AUTH_API = ''https://account2.hon-smarthome.com''"

definition API_URL :: string where
  "API_URL = ''https://api-iot.he.services''"

text \<open>A response of \<open>fetch\<close>: its status, what \<open>response.text()\<close> gives, and what
  \<open>response.json()\<close> gives (\<open>None\<close> when the body is not JSON and the call rejects).\<close>

record response =
  status :: nat
  body_text :: string
  body_json :: "jsval option"

definition ok :: "response \<Rightarrow> bool" where
  "ok r = (200 \<le> status r \<and> status r \<le> 299)"

datatype fetch_result = NetworkError | Response response

text \<open>A call of \<open>fetch\<close>: the URL, the method, and the credentials it carries (header or
  form field, and value).\<close>

record fetch_request =
  req_url :: string
  req_method :: string
  req_credentials :: "(string \<times> jsval) list"

datatype api_error =
    NoRefreshToken
  | TokenRefreshFailed nat string
  | CognitoTokenFailed nat string
  | NoCognitoToken
  | TokensNotSet
  | NotAuthenticated
  | AuthenticationFailedRefresh api_error
  | AuthenticationFailedAfterRefresh nat string
  | ApiRequestFailed nat string
  | FetchFailed
  | JsonSyntaxError
  | TypeError
  | RangeError

text \<open>
  The client object. \<open>tokenExpiresAt\<close> is \<open>None\<close> for \<open>null\<close> and for \<open>NaN\<close>, both falsy.
  Three fields stand for the outside: \<open>net\<close> is the list of results the network will
  give to the coming calls of \<open>fetch\<close>, in order (an exhausted list rejects); \<open>fetched\<close>
  logs the calls of \<open>fetch\<close>; \<open>refresh_persisted\<close> and \<open>tokens_persisted\<close> log the
  callbacks \<open>onTokenRefresh\<close> and \<open>onTokensUpdated\<close>. For one caller taken alone the
  promise held in \<open>_refreshPromise\<close> is the argument \<open>inflight\<close> of \<open>safeRefresh\<close>; among
  several callers it is the field \<open>refreshPromise\<close> of the record \<open>session\<close> further down.
\<close>

record honapi =
  refreshToken :: jsval
  accessToken :: jsval
  idToken :: jsval
  cognitoToken :: jsval
  tokenExpiresAt :: "rat option"
  authenticated :: bool
  mobileId :: string
  net :: "fetch_result list"
  fetched :: "fetch_request list"
  refresh_persisted :: "jsval list"
  tokens_persisted :: "(jsval \<times> jsval) list"

text \<open>The constructor: \<open>options.refreshToken || null\<close>, everything else unset.\<close>

definition new_HonApi :: "jsval \<Rightarrow> string \<Rightarrow> fetch_result list \<Rightarrow> honapi" where
  "new_HonApi options_refreshToken uuid responses =
     \<lparr> refreshToken = (if truthy options_refreshToken then options_refreshToken else JNull),
       accessToken = JNull,
       idToken = JNull,
       cognitoToken = JNull,
       tokenExpiresAt = None,
       authenticated = False,
       mobileId = uuid,
       net = responses,
       fetched = [],
       refresh_persisted = [],
       tokens_persisted = [] \<rparr>"

definition fetch :: "fetch_request \<Rightarrow> honapi \<Rightarrow> (api_error + response) \<times> honapi" where
  "fetch rq h =
     (let h1 = h\<lparr>fetched := fetched h @ [rq]\<rparr>
      in (case net h of
            [] \<Rightarrow> (Inl FetchFailed, h1)
          | NetworkError # rs \<Rightarrow> (Inl FetchFailed, h1\<lparr>net := rs\<rparr>)
          | Response r # rs \<Rightarrow> (Inr r, h1\<lparr>net := rs\<rparr>)))"

text \<open>\<open>this.tokenExpiresAt && Date.now() > this.tokenExpiresAt - TOKEN_EXPIRY_BUFFER\<close>.\<close>

definition expiring :: "rat \<Rightarrow> honapi \<Rightarrow> bool" where
  "expiring t h =
     (case tokenExpiresAt h of
        None \<Rightarrow> False
      | Some x \<Rightarrow> x \<noteq> 0 \<and> t > x - TOKEN_EXPIRY_BUFFER)"

definition isAuthenticated :: "rat \<Rightarrow> honapi \<Rightarrow> bool" where
  "isAuthenticated t h =
     (if \<not> authenticated h \<or> \<not> truthy (cognitoToken h) \<or> \<not> truthy (idToken h) then False
      else if expiring t h then False
      else True)"

definition isTokenExpired :: "rat \<Rightarrow> honapi \<Rightarrow> bool" where
  "isTokenExpired t h =
     (case tokenExpiresAt h of
        None \<Rightarrow> True
      | Some x \<Rightarrow> if x = 0 then True else t > x)"

text \<open>\<open>setTokens(accessToken, idToken, refreshToken = null)\<close>: an omitted third argument
  is \<open>undefined\<close> and takes the default.\<close>

definition setTokens :: "rat \<Rightarrow> jsval \<Rightarrow> jsval \<Rightarrow> jsval \<Rightarrow> honapi \<Rightarrow> honapi" where
  "setTokens t a i r h =
     (let r1 = (if r = JUndefined then JNull else r);
          h1 = h\<lparr>accessToken := a, idToken := i\<rparr>;
          h2 = (if truthy r1 then h1\<lparr>refreshToken := r1\<rparr> else h1)
      in h2\<lparr>tokenExpiresAt := Some (t + TOKEN_LIFETIME_MS)\<rparr>)"

text \<open>Property reads on a value that need not be an object: \<open>v.k\<close> throws on \<open>null\<close> and
  \<open>undefined\<close>; \<open>v?.k\<close> gives \<open>undefined\<close> there.\<close>

fun js_prop :: "jsval \<Rightarrow> string \<Rightarrow> api_error + jsval" where
  "js_prop (JObj kvs) k = Inr (js_get kvs k)"
| "js_prop JNull k = Inl TypeError"
| "js_prop JUndefined k = Inl TypeError"
| "js_prop v k = Inr JUndefined"

fun js_opt_prop :: "jsval \<Rightarrow> string \<Rightarrow> jsval" where
  "js_opt_prop (JObj kvs) k = js_get kvs k"
| "js_opt_prop v k = JUndefined"

definition getCognitoToken :: "honapi \<Rightarrow> (api_error + unit) \<times> honapi" where
  "getCognitoToken h =
     (case fetch \<lparr> req_url = API_URL @ ''/auth/v1/login'', req_method = ''POST'',
                   req_credentials = [(''id-token'', idToken h)] \<rparr> h of
        (Inl err, h1) \<Rightarrow> (Inl err, h1)
      | (Inr resp, h1) \<Rightarrow>
          if \<not> ok resp then (Inl (CognitoTokenFailed (status resp) (body_text resp)), h1)
          else
            (case body_json resp of
               None \<Rightarrow> (Inl JsonSyntaxError, h1)
             | Some result \<Rightarrow>
                 (case js_prop result ''cognitoUser'' of
                    Inl err \<Rightarrow> (Inl err, h1)
                  | Inr cognitoUser \<Rightarrow>
                      if \<not> truthy (js_opt_prop cognitoUser ''Token'')
                      then (Inl NoCognitoToken, h1)
                      else (Inr (), h1\<lparr>cognitoToken := js_opt_prop cognitoUser ''Token''\<rparr>))))"

definition initializeWithTokens :: "honapi \<Rightarrow> (api_error + unit) \<times> honapi" where
  "initializeWithTokens h =
     (if \<not> truthy (accessToken h) \<or> \<not> truthy (idToken h) then (Inl TokensNotSet, h)
      else
        (case getCognitoToken h of
           (Inl err, h1) \<Rightarrow> (Inl err, h1)
         | (Inr u, h1) \<Rightarrow> (Inr (), h1\<lparr>authenticated := True\<rparr>)))"

text \<open>\<open>new Date(t).toISOString()\<close> throws a \<open>RangeError\<close> outside the range of dates.\<close>

definition valid_date :: "rat \<Rightarrow> bool" where
  "valid_date t = (\<bar>t\<bar> \<le> 8640000000000000)"

text \<open>
  \<open>_refreshAccessToken\<close>: the refresh grant, then the token exchange with the fresh id
  token. The log line that prints the keys of the result throws on \<open>null\<close>; the one that
  prints the expiry throws on an invalid date.
\<close>

definition refreshAccessToken ::
  "(string \<Rightarrow> rat option) \<Rightarrow> rat \<Rightarrow> honapi \<Rightarrow> (api_error + unit) \<times> honapi" where
  "refreshAccessToken N t h =
     (if \<not> truthy (refreshToken h) then (Inl NoRefreshToken, h)
      else
        (case fetch \<lparr> req_url = AUTH_API @ ''/services/oauth2/token'', req_method = ''POST'',
                      req_credentials = [(''refresh_token'', refreshToken h)] \<rparr> h of
           (Inl err, h1) \<Rightarrow> (Inl err, h1)
         | (Inr resp, h1) \<Rightarrow>
             if \<not> ok resp then (Inl (TokenRefreshFailed (status resp) (body_text resp)), h1)
             else
               (case body_json resp of
                  None \<Rightarrow> (Inl JsonSyntaxError, h1)
                | Some result \<Rightarrow>
                    if result = JNull then (Inl TypeError, h1)
                    else
                      (let h2 = h1\<lparr>accessToken := js_opt_prop result ''access_token'',
                                    idToken := js_opt_prop result ''id_token''\<rparr>;
                           rt = js_opt_prop result ''refresh_token'';
                           h3 = (if truthy rt
                                 then h2\<lparr>refreshToken := rt,
                                         refresh_persisted := refresh_persisted h2 @ [rt]\<rparr>
                                 else h2);
                           h4 = h3\<lparr>tokens_persisted :=
                                       tokens_persisted h3 @ [(accessToken h3, idToken h3)]\<rparr>;
                           ei = js_opt_prop result ''expires_in'';
                           expiresIn = (if truthy ei then ei else JNum 28800);
                           h5 = h4\<lparr>tokenExpiresAt :=
                                       map_option (\<lambda>x. t + x * 1000) (Number N expiresIn)\<rparr>
                       in (case tokenExpiresAt h5 of
                             None \<Rightarrow> (Inl RangeError, h5)
                           | Some x \<Rightarrow>
                               if \<not> valid_date x then (Inl RangeError, h5)
                               else
                                 (case getCognitoToken h5 of
                                    (Inl err, h6) \<Rightarrow> (Inl err, h6)
                                  | (Inr u, h6) \<Rightarrow> (Inr (), h6\<lparr>authenticated := True\<rparr>)))))))"

text \<open>
  \<open>_safeRefresh\<close>, as one caller sees it. When \<open>_refreshPromise\<close> holds a promise the
  caller awaits that promise: \<open>inflight\<close> is \<open>Some P\<close>, with \<open>P\<close> what the awaited refresh
  does to the client and how it settles. Otherwise the caller's own
  \<open>_refreshAccessToken\<close> runs, and the \<open>finally\<close> clears the guard.
\<close>

definition safeRefresh ::
  "(string \<Rightarrow> rat option) \<Rightarrow> rat \<Rightarrow> (honapi \<Rightarrow> (api_error + unit) \<times> honapi) option \<Rightarrow>
     honapi \<Rightarrow> (api_error + unit) \<times> honapi" where
  "safeRefresh N t inflight h =
     (case inflight of
        Some P \<Rightarrow> P h
      | None \<Rightarrow> refreshAccessToken N t h)"

text \<open>What one call of \<open>_apiRequest\<close> does, in order: its own calls of \<open>fetch\<close> and its
  awaits of \<open>_safeRefresh\<close>.\<close>

datatype step = DoFetch | SafeRefresh

definition ensureAuthenticated ::
  "(string \<Rightarrow> rat option) \<Rightarrow> rat \<Rightarrow> (honapi \<Rightarrow> (api_error + unit) \<times> honapi) option \<Rightarrow>
     honapi \<Rightarrow> (api_error + unit) \<times> step list \<times> honapi" where
  "ensureAuthenticated N t inflight h =
     (if isAuthenticated t h then (Inr (), [], h)
      else if truthy (refreshToken h) then
        (case safeRefresh N t inflight h of (r, h1) \<Rightarrow> (r, [SafeRefresh], h1))
      else (Inl NotAuthenticated, [], h))"

text \<open>The \<open>options\<close> of \<open>_apiRequest\<close>; callers pass no headers of their own.\<close>

record request_options =
  opt_method :: "string option"
  opt_body :: "jsval option"

definition doFetch :: "string \<Rightarrow> request_options \<Rightarrow> honapi \<Rightarrow> (api_error + response) \<times> honapi" where
  "doFetch endpoint options h =
     fetch \<lparr> req_url = API_URL @ endpoint,
             req_method = or_str (opt_method options) ''GET'',
             req_credentials =
               [(''cognito-token'', cognitoToken h), (''id-token'', idToken h)] \<rparr> h"

text \<open>The end of \<open>_apiRequest\<close>: a response that is not \<open>ok\<close> is an error carrying
  its status and body; otherwise \<open>response.json()\<close>.\<close>

definition finish_request :: "response \<Rightarrow> api_error + jsval" where
  "finish_request resp =
     (if \<not> ok resp then Inl (ApiRequestFailed (status resp) (body_text resp))
      else (case body_json resp of None \<Rightarrow> Inl JsonSyntaxError | Some j \<Rightarrow> Inr j))"

definition unauthorized :: "response \<Rightarrow> bool" where
  "unauthorized resp = (status resp = 401 \<or> status resp = 403)"

definition apiRequest ::
  "(string \<Rightarrow> rat option) \<Rightarrow> rat \<Rightarrow> (honapi \<Rightarrow> (api_error + unit) \<times> honapi) option \<Rightarrow>
     string \<Rightarrow> request_options \<Rightarrow> honapi \<Rightarrow> (api_error + jsval) \<times> step list \<times> honapi" where
  "apiRequest N t inflight endpoint options h =
     (case ensureAuthenticated N t inflight h of
        (Inl err, s0, h0) \<Rightarrow> (Inl err, s0, h0)
      | (Inr u, s0, h0) \<Rightarrow>
          (case doFetch endpoint options h0 of
             (Inl err, h1) \<Rightarrow> (Inl err, s0 @ [DoFetch], h1)
           | (Inr response, h1) \<Rightarrow>
               if unauthorized response then
                 (case safeRefresh N t inflight h1 of
                    (Inl refreshError, h2) \<Rightarrow>
                      (Inl (AuthenticationFailedRefresh refreshError),
                       s0 @ [DoFetch, SafeRefresh], h2\<lparr>authenticated := False\<rparr>)
                  | (Inr u, h2) \<Rightarrow>
                      (case doFetch endpoint options h2 of
                         (Inl err, h3) \<Rightarrow> (Inl err, s0 @ [DoFetch, SafeRefresh, DoFetch], h3)
                       | (Inr response2, h3) \<Rightarrow>
                           if unauthorized response2 then
                             (Inl (AuthenticationFailedAfterRefresh (status response2)
                                     (body_text response2)),
                              s0 @ [DoFetch, SafeRefresh, DoFetch], h3\<lparr>authenticated := False\<rparr>)
                           else
                             (finish_request response2,
                              s0 @ [DoFetch, SafeRefresh, DoFetch], h3)))
               else (finish_request response, s0 @ [DoFetch], h1)))"


section \<open>Sample sessions\<close>

text \<open>An authenticated client whose tokens are fresh at time 1000, and responses of
  the cloud: an authorization failure, a refused refresh grant, a refresh grant, a token
  exchange and an API payload.\<close>

definition example_client :: honapi where
  "example_client =
     \<lparr> refreshToken = JStr ''r1'',
       accessToken = JStr ''a1'',
       idToken = JStr ''i1'',
       cognitoToken = JStr ''c1'',
       tokenExpiresAt = Some 28800000,
       authenticated = True,
       mobileId = ''m'',
       net = [],
       fetched = [],
       refresh_persisted = [],
       tokens_persisted = [] \<rparr>"

definition response_401 :: response where
  "response_401 = \<lparr> status = 401, body_text = ''Unauthorized'', body_json = None \<rparr>"

definition response_invalid_grant :: response where
  "response_invalid_grant = \<lparr> status = 400, body_text = ''invalid_grant'', body_json = None \<rparr>"

definition response_tokens :: response where
  "response_tokens =
     \<lparr> status = 200, body_text = [],
       body_json = Some (JObj [(''access_token'', JStr ''a2''), (''id_token'', JStr ''i2'')]) \<rparr>"

definition response_cognito :: response where
  "response_cognito =
     \<lparr> status = 200, body_text = [],
       body_json = Some (JObj [(''cognitoUser'', JObj [(''Token'', JStr ''c2'')])]) \<rparr>"

definition response_appliances :: response where
  "response_appliances =
     \<lparr> status = 200, body_text = [],
       body_json = Some (JObj [(''payload'', JObj [])]) \<rparr>"

definition example_options :: request_options where
  "example_options = \<lparr> opt_method = None, opt_body = None \<rparr>"

text \<open>The client facing a 401 followed by a successful refresh and a successful
  retry; and facing a 401 followed by a refused refresh.\<close>

definition example_session_retry :: honapi where
  "example_session_retry =
     example_client\<lparr>net := [Response response_401, Response response_tokens,
                              Response response_cognito, Response response_appliances]\<rparr>"

definition example_session_refresh_fails :: honapi where
  "example_session_refresh_fails =
     example_client\<lparr>net := [Response response_401, Response response_invalid_grant]\<rparr>"


section \<open>lib/HonApi.js: the refresh guard among concurrent callers\<close>

text \<open>
  JavaScript runs the code between two awaits to completion, so \<open>_safeRefresh\<close> acts on
  the guard \<open>_refreshPromise\<close> in two indivisible steps. The first is its synchronous
  body: a caller that finds a promise in the guard takes that promise; a caller that
  finds none calls \<open>_refreshAccessToken()\<close>, stores the promise of that run in the guard
  and takes it. The second is the \<open>finally\<close> handler of the stored promise, which runs
  when the refresh has settled and clears the guard. Callers that arrive between the
  two steps touch nothing but the guard, so what the refresh run does to the client and
  to the network (\<open>refreshAccessToken\<close> above) is accounted at its settlement.

  A promise is named by its number. \<open>promises\<close> counts the runs of
  \<open>_refreshAccessToken\<close> started so far, \<open>awaited\<close> lists each caller with the promise
  \<open>_safeRefresh\<close> returned to it, and \<open>settled\<close> lists each promise with its outcome.
\<close>

record session =
  client :: honapi
  refreshPromise :: "nat option"
  promises :: nat
  awaited :: "(string \<times> nat) list"
  settled :: "(nat \<times> (api_error + unit)) list"

text \<open>The synchronous body of \<open>_safeRefresh\<close>, run by the named caller.\<close>

definition call_safeRefresh :: "string \<Rightarrow> session \<Rightarrow> session" where
  "call_safeRefresh caller s =
     (case refreshPromise s of
        Some p \<Rightarrow> s\<lparr>awaited := awaited s @ [(caller, p)]\<rparr>
      | None \<Rightarrow>
          (let p = promises s
           in s\<lparr>refreshPromise := Some p, promises := p + 1,
                 awaited := awaited s @ [(caller, p)]\<rparr>))"

text \<open>The refresh in flight settles at time \<open>t\<close> and its \<open>finally\<close> handler runs; with
  nothing in flight there is nothing to settle.\<close>

definition settle :: "(string \<Rightarrow> rat option) \<Rightarrow> rat \<Rightarrow> session \<Rightarrow> session" where
  "settle N t s =
     (case refreshPromise s of
        None \<Rightarrow> s
      | Some p \<Rightarrow>
          (case refreshAccessToken N t (client s) of
             (r, c) \<Rightarrow> s\<lparr>client := c, refreshPromise := None, settled := settled s @ [(p, r)]\<rparr>))"


text \<open>The requests a client has made since an earlier state of it, by URL.\<close>

definition requested :: "honapi \<Rightarrow> honapi \<Rightarrow> string list" where
  "requested h h' = map req_url (drop (length (fetched h)) (fetched h'))"




section \<open>Properties of the tables and of the canonical MAC\<close>

lemma split_char_first: "\<exists>ps. split_char c s = takeWhile (\<lambda>x. x \<noteq> c) s # ps"
proof (induction s)
  case Nil
  show ?case by simp
next
  case (Cons x xs)
  then obtain ps where "split_char c xs = takeWhile (\<lambda>x. x \<noteq> c) xs # ps" by blast
  then show ?case by simp
qed

lemma split_hash_first_takeWhile:
  "split_hash_first s = Some (takeWhile (\<lambda>x. x \<noteq> CHR ''#'') s)"
proof -
  obtain ps where "split_char CHR ''#'' s = takeWhile (\<lambda>x. x \<noteq> CHR ''#'') s # ps"
    using split_char_first by blast
  then show ?thesis by (simp add: split_hash_first_def)
qed

text \<open>
  Claim C7. For every wire HVAC-mode value \<open>v\<close> in 0..6, mapping \<open>v\<close> to the capability
  value and that value back to the wire gives \<open>v\<close> again, except that 3 (dry) comes back
  as 2 and 5 (fan only) comes back as 6.
\<close>

theorem hvac_mode_wire_roundtrip:
  fixes v :: int
  assumes "0 \<le> v" and "v \<le> 6"
  shows "HVAC_MODE_TO_HON (wire_to_hvac_mode (of_int v)) =
           Some (if v = 3 then 2 else if v = 5 then 6 else v)"
proof -
  from assms have "v = 0 \<or> v = 1 \<or> v = 2 \<or> v = 3 \<or> v = 4 \<or> v = 5 \<or> v = 6" by arith
  then show ?thesis
    by (elim disjE)
       (simp_all add: wire_to_hvac_mode_def HON_TO_HVAC_MODE_def HVAC_MODE_TO_HON_def or_str_def)
qed

theorem hvac_mode_wire_roundtrip_witness:
  "HVAC_MODE_TO_HON (wire_to_hvac_mode 3) = Some 2 \<and>
   HVAC_MODE_TO_HON (wire_to_hvac_mode 5) = Some 6 \<and>
   HVAC_MODE_TO_HON (wire_to_hvac_mode 4) = Some 4"
  using hvac_mode_wire_roundtrip [of 3] hvac_mode_wire_roundtrip [of 5]
    hvac_mode_wire_roundtrip [of 4]
  by simp

text \<open>
  Claim C9. A MAC of the form \<open>mac#suffix\<close>, where \<open>mac\<close> is the part before the first
  \<open>#\<close>, is canonicalized to \<open>mac\<close>, and a MAC without \<open>#\<close> is left as it is; this holds at
  both places that canonicalize (\<open>onInit\<close> of the device, \<open>onPairListDevices\<close> of the
  driver).
\<close>

theorem canonical_mac_prefix:
  assumes "CHR ''#'' \<notin> set mac"
  shows "split_hash_first (mac @ CHR ''#'' # suffix) = Some mac \<and>
         split_hash_first mac = Some mac \<and>
         onInit_deviceId (Some (mac @ CHR ''#'' # suffix)) = Some mac \<and>
         onInit_deviceId (Some mac) = Some mac \<and>
         onPairListDevices_macAddress (Some (mac @ CHR ''#'' # suffix)) aid = Some mac \<and>
         (mac \<noteq> [] \<longrightarrow> onPairListDevices_macAddress (Some mac) aid = Some mac)"
proof -
  from assms have a: "takeWhile (\<lambda>x. x \<noteq> CHR ''#'') (mac @ CHR ''#'' # suffix) = mac"
    by (induction mac) auto
  from assms have b: "takeWhile (\<lambda>x. x \<noteq> CHR ''#'') mac = mac"
    by (induction mac) auto
  have c: "split_hash_first [] = Some []"
    by (simp add: split_hash_first_def)
  show ?thesis
    using a b c
    by (simp add: split_hash_first_takeWhile onInit_deviceId_def
        onPairListDevices_macAddress_def or_str_def)
qed

theorem canonical_mac_prefix_witness:
  "split_hash_first ''AB-CD#2024'' = Some ''AB-CD'' \<and>
   split_hash_first ''AB-CD'' = Some ''AB-CD'' \<and>
   onInit_deviceId (Some ''AB-CD#2024'') = Some ''AB-CD'' \<and>
   onPairListDevices_macAddress (Some ''AB-CD#2024'') None = Some ''AB-CD''"
  using canonical_mac_prefix [of "''AB-CD''" "''2024''" None]
  by simp

section \<open>Commands sent by the device\<close>

lemma or_empty_simps [simp]: "or_empty (Some m) = m" "or_empty None = Map.empty"
  by (simp_all add: or_empty_def)

lemmas setter_defs = setOnOff_def setTargetTemperature_def setHvacMode_def setFanSpeed_def
  setSwingMode_def setToggle_def

lemmas send_defs = issued_def api_sendCommand_def sendCommand_payload_def Let_def skip_polls_def

lemma hd_in_issued: "length xs = 1 \<Longrightarrow> hd xs \<in> set xs"
  by (cases xs) auto


subsection \<open>Power off\<close>

lemma issued_stop:
  assumes "c \<in> set (issued d (snd (perform e r d)))" and "commandName c = ''stopProgram''"
  shows "parameters c = (or_empty (mandatoryParams d))(''onOffStatus'' \<mapsto> JStr ''0'')"
  using assms
  by (cases r)
     (auto simp: setter_defs send_defs split: sum.splits prod.splits if_splits option.splits)

lemma stop_issued:
  assumes "api d"
  shows "\<exists>c. issued d (snd (perform e (SetOnOff False) d)) = [c] \<and>
             commandName c = ''stopProgram'' \<and>
             parameters c = (or_empty (mandatoryParams d))(''onOffStatus'' \<mapsto> JStr ''0'')"
  using assms
  by (simp add: setOnOff_def send_defs split: sum.splits prod.splits)

text \<open>
  Claim C6. Whatever the device is asked to do, every \<open>stopProgram\<close> command it sends
  carries as parameters exactly the mandatory set with \<open>onOffStatus\<close> set to "0": no mode,
  fan-speed or temperature field is added. Turning the device off (with an API client
  present) sends exactly one such command.
\<close>

theorem stop_command_parameters:
  "(\<forall>c \<in> set (issued d (snd (perform e r d))).
      commandName c = ''stopProgram'' \<longrightarrow>
      parameters c = (or_empty (mandatoryParams d))(''onOffStatus'' \<mapsto> JStr ''0'')) \<and>
   (api d \<longrightarrow>
      (\<exists>c. issued d (snd (perform e (SetOnOff False) d)) = [c] \<and>
           commandName c = ''stopProgram'' \<and>
           parameters c = (or_empty (mandatoryParams d))(''onOffStatus'' \<mapsto> JStr ''0'')))"
  using issued_stop stop_issued by blast

theorem stop_command_parameters_witness:
  "api example_device \<and>
   (\<exists>c. issued example_device (snd (perform example_env (SetOnOff False) example_device)) = [c] \<and>
        commandName c = ''stopProgram'' \<and>
        parameters c ''onOffStatus'' = Some (JStr ''0'') \<and>
        parameters c ''windDirectionVertical'' = Some (JStr ''5'') \<and>
        parameters c ''machMode'' = None \<and>
        parameters c ''tempSel'' = None \<and>
        parameters c ''windSpeed'' = None)"
proof -
  have a: "api example_device" by (simp add: example_device_def)
  from a stop_command_parameters [of example_device example_env "SetOnOff False"]
  obtain c where c:
    "issued example_device (snd (perform example_env (SetOnOff False) example_device)) = [c]"
    "commandName c = ''stopProgram''"
    "parameters c = (or_empty (mandatoryParams example_device))(''onOffStatus'' \<mapsto> JStr ''0'')"
    by blast
  have "parameters c ''onOffStatus'' = Some (JStr ''0'') \<and>
        parameters c ''windDirectionVertical'' = Some (JStr ''5'') \<and>
        parameters c ''machMode'' = None \<and>
        parameters c ''tempSel'' = None \<and>
        parameters c ''windSpeed'' = None"
    by (simp add: c(3) example_device_def)
  with a c show ?thesis by blast
qed

subsection \<open>Starting a program\<close>












subsection \<open>Target temperature\<close>

lemma issued_setTargetTemperature:
  assumes "c \<in> set (issued d (snd (setTargetTemperature e t d)))"
  shows "commandName c = ''settings'' \<and>
         parameters c ''tempSel'' = Some (JStr (String_int (Math_round (min 30 (max 16 t)))))"
proof -
  have "(if (if t < 16 then 16 else t) > 30 then 30 else (if t < 16 then 16 else t))
          = min 30 (max 16 t)"
    by (simp add: min_def max_def)
  with assms show ?thesis
    by (auto simp: setTargetTemperature_def send_defs split: sum.splits prod.splits if_splits)
qed

lemma setTargetTemperature_issues:
  assumes "api d" and "or_str (hon_hvac_mode d) ''auto'' \<noteq> ''10_heating''"
  shows "length (issued d (snd (setTargetTemperature e t d))) = 1"
  using assms
  by (auto simp: setTargetTemperature_def send_defs split: sum.splits prod.splits if_splits)

lemma Math_round_bounds:
  "16 \<le> x \<Longrightarrow> x \<le> 30 \<Longrightarrow> 16 \<le> Math_round x \<and> Math_round x \<le> 30"
  unfolding Math_round_def by linarith

lemma Math_round_clamped:
  "16 \<le> Math_round (min 30 (max 16 t)) \<and> Math_round (min 30 (max 16 t)) \<le> 30"
  by (rule Math_round_bounds) simp_all

lemma Math_round_of_int: "Math_round (of_int n) = n"
  unfolding Math_round_def by linarith

lemma Math_round_clamp_int:
  "Math_round (min 30 (max 16 (of_int n))) = min 30 (max 16 n)"
proof -
  have "min 30 (max 16 (of_int n :: rat)) = of_int (min 30 (max 16 n))"
    by (simp add: min_def max_def)
  then show ?thesis by (simp only: Math_round_of_int)
qed

lemma Math_round_numeral: "Math_round (numeral k) = numeral k"
  using Math_round_of_int [of "numeral k"] by simp

lemma String_int_examples:
  "String_int 16 = ''16''" "String_int 22 = ''22''" "String_int 30 = ''30''"
  by (simp_all add: String_int_def digits.simps digit_char_def)

text \<open>
  Claim C4, as amended. When the device is not in anti-freeze mode, a request to set the
  target temperature to \<open>t\<close> sends \<open>tempSel\<close> equal to the decimal string of
  \<open>min(30, max(16, t))\<close> rounded to the nearest integer (a half rounds up), an integer
  between 16 and 30; for an integral \<open>t\<close> that is \<open>min(30, max(16, t))\<close> itself, so 5
  yields 16, 35 yields 30 and 22 yields 22.
\<close>

theorem target_temperature_clamped_rounded:
  assumes "hon_hvac_mode d \<noteq> Some ''10_heating''"
  shows "(\<forall>c \<in> set (issued d (snd (perform e (SetTargetTemperature t) d))).
            commandName c = ''settings'' \<and>
            parameters c ''tempSel'' =
              Some (JStr (String_int (Math_round (min 30 (max 16 t)))))) \<and>
         (api d \<longrightarrow> length (issued d (snd (perform e (SetTargetTemperature t) d))) = 1) \<and>
         16 \<le> Math_round (min 30 (max 16 t)) \<and> Math_round (min 30 (max 16 t)) \<le> 30 \<and>
         (\<forall>n. t = of_int n \<longrightarrow> Math_round (min 30 (max 16 t)) = min 30 (max 16 n))"
proof -
  from assms have m: "or_str (hon_hvac_mode d) ''auto'' \<noteq> ''10_heating''"
    by (auto simp: or_str_def split: option.splits)
  show ?thesis
    using issued_setTargetTemperature [of _ d e t] setTargetTemperature_issues [OF _ m, of e t]
      Math_round_clamped [of t] Math_round_clamp_int
    by simp
qed

theorem target_temperature_clamped_rounded_witness:
  "hon_hvac_mode example_device \<noteq> Some ''10_heating'' \<and> api example_device \<and>
   parameters (hd (issued example_device
      (snd (perform example_env (SetTargetTemperature 5) example_device))))
     ''tempSel'' = Some (JStr ''16'') \<and>
   parameters (hd (issued example_device
      (snd (perform example_env (SetTargetTemperature 35) example_device))))
     ''tempSel'' = Some (JStr ''30'') \<and>
   parameters (hd (issued example_device
      (snd (perform example_env (SetTargetTemperature 22) example_device))))
     ''tempSel'' = Some (JStr ''22'')"
proof -
  have m: "hon_hvac_mode example_device \<noteq> Some ''10_heating''" and a: "api example_device"
    by (simp_all add: example_device_def)
  have s: "String_int (Math_round (min 30 (max 16 5))) = ''16''"
    "String_int (Math_round (min 30 (max 16 35))) = ''30''"
    "String_int (Math_round (min 30 (max 16 22))) = ''22''"
    by (simp_all add: Math_round_numeral String_int_examples)
  note t = target_temperature_clamped_rounded [OF m, of example_env]
  from t [of 5] t [of 35] t [of 22] a have
    "hd (issued example_device (snd (perform example_env (SetTargetTemperature 5) example_device)))
       \<in> set (issued example_device
               (snd (perform example_env (SetTargetTemperature 5) example_device)))"
    "hd (issued example_device (snd (perform example_env (SetTargetTemperature 35) example_device)))
       \<in> set (issued example_device
               (snd (perform example_env (SetTargetTemperature 35) example_device)))"
    "hd (issued example_device (snd (perform example_env (SetTargetTemperature 22) example_device)))
       \<in> set (issued example_device
               (snd (perform example_env (SetTargetTemperature 22) example_device)))"
    using hd_in_issued by blast+
  with t [of 5] t [of 35] t [of 22] m a show ?thesis
    by (simp only: s) blast
qed

text \<open>
  The claim as first stated fails for a temperature that is not integral: a request
  for 21.5 degrees sends \<open>tempSel\<close> "22", while \<open>min(30, max(16, 21.5))\<close> is 21.5.
\<close>

theorem target_temperature_fraction_counterexample:
  "hon_hvac_mode example_device \<noteq> Some ''10_heating'' \<and>
   parameters (hd (issued example_device
      (snd (perform example_env (SetTargetTemperature (43 / 2)) example_device))))
     ''tempSel'' = Some (JStr ''22'') \<and>
   dec_number ''22'' = Some 22 \<and>
   min 30 (max 16 (43 / 2 :: rat)) \<noteq> 22"
  by (simp add: example_device_def example_env_def setTargetTemperature_def send_defs or_str_def
      HVAC_MODE_TO_HON_def FAN_SPEED_TO_HON_def nullish_def String_int_def Math_round_def
      digits.simps digit_char_def dec_number_def digit_val_def)

text \<open>
  Claim C5, as amended. While anti-freeze mode is active, every request to set the target
  temperature fails before anything is sent: no command is handed to the API and the
  device is left exactly as it was. The error is the anti-freeze validation error
  whenever the app has an API client, and "API not available" otherwise.
\<close>

theorem anti_freeze_rejects_temperature:
  assumes "hon_hvac_mode d = Some ''10_heating''"
  shows "perform e (SetTargetTemperature t) d =
           (Inl (if api d then TemperatureFixedInAntiFreeze else ApiNotAvailable), d) \<and>
         issued d (snd (perform e (SetTargetTemperature t) d)) = []"
  using assms by (simp add: setTargetTemperature_def or_str_def issued_def)

theorem anti_freeze_rejects_temperature_witness:
  "hon_hvac_mode example_device_anti_freeze = Some ''10_heating'' \<and>
   perform example_env (SetTargetTemperature 22) example_device_anti_freeze =
     (Inl TemperatureFixedInAntiFreeze, example_device_anti_freeze) \<and>
   issued example_device_anti_freeze
     (snd (perform example_env (SetTargetTemperature 22) example_device_anti_freeze)) = []"
proof -
  have m: "hon_hvac_mode example_device_anti_freeze = Some ''10_heating''"
    and a: "api example_device_anti_freeze"
    by (simp_all add: example_device_anti_freeze_def example_device_def)
  from anti_freeze_rejects_temperature [OF m, of example_env 22] m a show ?thesis
    by (simp add: issued_def)
qed

text \<open>
  The claim as first stated fails when the app has no API client: the request still
  fails and sends nothing, but with "API not available", which the guard at the top of
  \<open>_setTargetTemperature\<close> raises before the mode is looked at.
\<close>

theorem anti_freeze_no_api_counterexample:
  "hon_hvac_mode example_device_no_api = Some ''10_heating'' \<and>
   fst (perform example_env (SetTargetTemperature 22) example_device_no_api)
     = Inl ApiNotAvailable \<and>
   fst (perform example_env (SetTargetTemperature 22) example_device_no_api)
     \<noteq> Inl TemperatureFixedInAntiFreeze"
  by (simp add: example_device_no_api_def example_device_anti_freeze_def example_device_def
      setTargetTemperature_def)

section \<open>Anti-freeze in the polled state\<close>

lemma update_toggle_frame:
  "target_temperature (update_toggle N st x d) = target_temperature d \<and>
   hon_hvac_mode (update_toggle N st x d) = hon_hvac_mode d"
  by (cases x) (simp add: Let_def)

lemma update_toggles_frame:
  "target_temperature (update_toggles N st d) = target_temperature d \<and>
   hon_hvac_mode (update_toggles N st d) = hon_hvac_mode d"
proof -
  have "target_temperature (fold (update_toggle N st) xs d) = target_temperature d \<and>
        hon_hvac_mode (fold (update_toggle N st) xs d) = hon_hvac_mode d" for xs
    by (induction xs arbitrary: d) (simp_all add: update_toggle_frame)
  then show ?thesis by (simp add: update_toggles_def)
qed

lemma update_outdoor_frame:
  "target_temperature (update_outdoor N st d) = target_temperature d \<and>
   hon_hvac_mode (update_outdoor N st d) = hon_hvac_mode d"
  by (simp add: update_outdoor_def Let_def split: option.splits)

lemma update_eco_pilot_frame:
  "target_temperature (update_eco_pilot N st d) = target_temperature d \<and>
   hon_hvac_mode (update_eco_pilot N st d) = hon_hvac_mode d"
  by (simp add: update_eco_pilot_def Let_def)

lemma update_swing_mode_frame:
  "target_temperature (update_swing_mode N st d) = target_temperature d \<and>
   hon_hvac_mode (update_swing_mode N st d) = hon_hvac_mode d"
  by (simp add: update_swing_mode_def Let_def)

lemma update_fan_speed_frame:
  "target_temperature (update_fan_speed N st d) = target_temperature d \<and>
   hon_hvac_mode (update_fan_speed N st d) = hon_hvac_mode d"
  by (simp add: update_fan_speed_def Let_def)

lemma later_blocks_frame:
  "target_temperature (update_outdoor N st (update_toggles N st (update_eco_pilot N st
      (update_swing_mode N st (update_fan_speed N st d))))) = target_temperature d \<and>
   hon_hvac_mode (update_outdoor N st (update_toggles N st (update_eco_pilot N st
      (update_swing_mode N st (update_fan_speed N st d))))) = hon_hvac_mode d"
  by (simp only: update_outdoor_frame update_toggles_frame update_eco_pilot_frame
      update_swing_mode_frame update_fan_speed_frame)

lemma hasCapability_early:
  "hasCapability (update_target_temperature N st (update_indoor N st (update_onoff N st d))) c
     = hasCapability d c"
proof -
  have "capabilities (update_onoff N st d) = capabilities d" for d
    by (simp add: update_onoff_def)
  moreover have "capabilities (update_indoor N st d) = capabilities d" for d
    by (simp add: update_indoor_def Let_def hasCapability_def split: option.splits)
  moreover have "capabilities (update_target_temperature N st d) = capabilities d" for d
    by (simp add: update_target_temperature_def split: option.splits)
  ultimately show ?thesis by (simp only: hasCapability_def)
qed

lemma anti_freeze_reported:
  assumes "is10Heating N st"
  shows "target_temperature (updateCapabilities N st d) = Some 10"
    and "js_get st ''machMode'' \<noteq> JUndefined \<Longrightarrow> hasCapability d ''hon_hvac_mode'' \<Longrightarrow>
         hon_hvac_mode (updateCapabilities N st d) = Some ''10_heating''"
proof -
  let ?d3 = "update_target_temperature N st (update_indoor N st (update_onoff N st d))"
  have t: "target_temperature ?d3 = Some 10"
    using assms by (simp add: update_target_temperature_def)
  have "target_temperature (update_hvac_mode N st ?d3) = Some 10"
    using t by (simp add: update_hvac_mode_def Let_def)
  then show "target_temperature (updateCapabilities N st d) = Some 10"
    by (simp add: updateCapabilities_def later_blocks_frame)
  assume "js_get st ''machMode'' \<noteq> JUndefined" "hasCapability d ''hon_hvac_mode''"
  then have "hon_hvac_mode (update_hvac_mode N st ?d3) = Some ''10_heating''"
    using assms by (simp add: update_hvac_mode_def Let_def hasCapability_early)
  then show "hon_hvac_mode (updateCapabilities N st d) = Some ''10_heating''"
    by (simp add: updateCapabilities_def later_blocks_frame)
qed

lemma early_blocks_mode:
  "hon_hvac_mode (update_target_temperature N st (update_indoor N st (update_onoff N st d)))
     = hon_hvac_mode d"
proof -
  have "hon_hvac_mode (update_onoff N st d) = hon_hvac_mode d" for d
    by (simp add: update_onoff_def)
  moreover have "hon_hvac_mode (update_indoor N st d) = hon_hvac_mode d" for d
    by (simp add: update_indoor_def Let_def split: option.splits)
  moreover have "hon_hvac_mode (update_target_temperature N st d) = hon_hvac_mode d" for d
    by (simp add: update_target_temperature_def split: option.splits)
  ultimately show ?thesis by simp
qed

lemma mode_not_reported:
  assumes "js_get st ''machMode'' = JUndefined \<or> \<not> hasCapability d ''hon_hvac_mode''"
  shows "hon_hvac_mode (updateCapabilities N st d) = hon_hvac_mode d"
proof -
  let ?d3 = "update_target_temperature N st (update_indoor N st (update_onoff N st d))"
  from assms have "update_hvac_mode N st ?d3 = ?d3"
    by (auto simp: update_hvac_mode_def hasCapability_early)
  then show ?thesis
    by (simp add: updateCapabilities_def later_blocks_frame early_blocks_mode)
qed

text \<open>
  Claim C8, as amended. When the polled state is mapped to capabilities and the
  anti-freeze flag \<open>10degreeHeatingStatus\<close> reads as 1, the reported target temperature is
  the fixed value 10, whatever \<open>tempSel\<close> says. When the state also carries a \<open>machMode\<close>
  and the device has the \<open>hon_hvac_mode\<close> capability, the reported HVAC mode is
  anti-freeze whatever value \<open>machMode\<close> carries; when the state carries no \<open>machMode\<close>
  or the device lacks the capability, no mode is reported and the stored mode stays as
  it was. Conversely, setting anti-freeze sends \<open>machMode\<close> "4", the wire value of heat,
  together with the flag set to "1".
\<close>

theorem anti_freeze_flag_overrides:
  assumes "Number N (extractValue (js_get st ''10degreeHeatingStatus'')) = Some 1"
  shows "target_temperature (updateCapabilities N st d) = Some 10 \<and>
         (js_get st ''machMode'' \<noteq> JUndefined \<and> hasCapability d ''hon_hvac_mode'' \<longrightarrow>
            hon_hvac_mode (updateCapabilities N st d) = Some ''10_heating'') \<and>
         (js_get st ''machMode'' = JUndefined \<or> \<not> hasCapability d ''hon_hvac_mode'' \<longrightarrow>
            hon_hvac_mode (updateCapabilities N st d) = hon_hvac_mode d) \<and>
         (\<forall>c \<in> set (issued d (snd (perform e (SetHvacMode ''10_heating'') d))).
            commandName c = ''startProgram'' \<and>
            parameters c ''machMode'' = Some (JStr ''4'') \<and>
            parameters c ''10degreeHeatingStatus'' = Some (JStr ''1'')) \<and>
         (api d \<longrightarrow> length (issued d (snd (perform e (SetHvacMode ''10_heating'') d))) = 1) \<and>
         HVAC_MODE_TO_HON ''heat'' = Some 4 \<and> String_int 4 = ''4''"
proof -
  from assms have f: "is10Heating N st" by (simp add: is10Heating_def reading_def)
  have s: "\<forall>c \<in> set (issued d (snd (perform e (SetHvacMode ''10_heating'') d))).
            commandName c = ''startProgram'' \<and>
            parameters c ''machMode'' = Some (JStr ''4'') \<and>
            parameters c ''10degreeHeatingStatus'' = Some (JStr ''1'')"
    by (auto simp: setHvacMode_def send_defs split: sum.splits prod.splits if_splits)
  have l: "api d \<longrightarrow> length (issued d (snd (perform e (SetHvacMode ''10_heating'') d))) = 1"
    by (auto simp: setHvacMode_def send_defs split: sum.splits prod.splits if_splits)
  have h: "HVAC_MODE_TO_HON ''heat'' = Some 4" "String_int 4 = ''4''"
    by (simp_all add: HVAC_MODE_TO_HON_def String_int_def digits.simps digit_char_def)
  from anti_freeze_reported [OF f] mode_not_reported [of st d N] s l h show ?thesis by blast
qed

theorem anti_freeze_flag_overrides_witness:
  "Number dec_number (extractValue (js_get example_state ''10degreeHeatingStatus'')) = Some 1 \<and>
   Number dec_number (extractValue (js_get example_state ''machMode'')) = Some 1 \<and>
   Number dec_number (extractValue (js_get example_state ''tempSel'')) = Some 22 \<and>
   hasCapability example_device ''hon_hvac_mode'' \<and>
   target_temperature (updateCapabilities dec_number example_state example_device) = Some 10 \<and>
   hon_hvac_mode (updateCapabilities dec_number example_state example_device) = Some ''10_heating'' \<and>
   parameters (hd (issued example_device
       (snd (perform example_env (SetHvacMode ''10_heating'') example_device)))) ''machMode''
     = Some (JStr ''4'') \<and>
   parameters (hd (issued example_device
       (snd (perform example_env (SetHvacMode ''10_heating'') example_device))))
     ''10degreeHeatingStatus'' = Some (JStr ''1'')"
proof -
  have r: "Number dec_number (extractValue (js_get example_state ''10degreeHeatingStatus'')) = Some 1"
    "Number dec_number (extractValue (js_get example_state ''machMode'')) = Some 1"
    "Number dec_number (extractValue (js_get example_state ''tempSel'')) = Some 22"
    by (simp_all add: example_state_def js_get_def js_in_def extractValue_def dec_number_def
        digit_val_def)
  have m: "js_get example_state ''machMode'' \<noteq> JUndefined"
    by (simp add: example_state_def js_get_def)
  have c: "hasCapability example_device ''hon_hvac_mode''" and a: "api example_device"
    by (simp_all add: hasCapability_def example_device_def)
  note t = anti_freeze_flag_overrides [OF r(1), of example_device example_env]
  from t a have
    "hd (issued example_device (snd (perform example_env (SetHvacMode ''10_heating'') example_device)))
       \<in> set (issued example_device
               (snd (perform example_env (SetHvacMode ''10_heating'') example_device)))"
    using hd_in_issued by blast
  with t r m c show ?thesis by blast
qed

text \<open>
  The claim as first stated puts no condition on the mode. A polled state with the flag
  set and no \<open>machMode\<close> sets the target temperature to 10 and reports no mode: the
  guard \<open>state.machMode !== undefined\<close> skips the block, and a device in cooling mode stays
  in cooling mode.
\<close>

theorem anti_freeze_no_machMode_counterexample:
  "Number dec_number (extractValue (js_get example_state_no_machMode ''10degreeHeatingStatus''))
     = Some 1 \<and>
   js_get example_state_no_machMode ''machMode'' = JUndefined \<and>
   hasCapability example_device ''hon_hvac_mode'' \<and>
   hon_hvac_mode example_device = Some ''cool'' \<and>
   target_temperature (updateCapabilities dec_number example_state_no_machMode example_device)
     = Some 10 \<and>
   hon_hvac_mode (updateCapabilities dec_number example_state_no_machMode example_device)
     = Some ''cool''"
proof -
  have r: "Number dec_number
             (extractValue (js_get example_state_no_machMode ''10degreeHeatingStatus'')) = Some 1"
    and m: "js_get example_state_no_machMode ''machMode'' = JUndefined"
    by (simp_all add: example_state_no_machMode_def js_get_def extractValue_def dec_number_def
        digit_val_def)
  have c: "hasCapability example_device ''hon_hvac_mode''"
    and k: "hon_hvac_mode example_device = Some ''cool''"
    by (simp_all add: hasCapability_def example_device_def)
  from r have f: "is10Heating dec_number example_state_no_machMode"
    by (simp add: is10Heating_def reading_def)
  from anti_freeze_reported(1) [OF f, of example_device]
    mode_not_reported [of example_state_no_machMode example_device dec_number] r m c k
  show ?thesis by simp
qed

section \<open>The session\<close>

text \<open>
  Claim C10, as amended. \<open>setTokens\<close> overwrites the access and id tokens and sets the
  expiry to eight hours from now; a refresh token that is \<open>null\<close>, omitted or any other
  falsy value (the empty string) leaves the stored refresh token unchanged, and a
  truthy one (a non-empty string) replaces it. Nothing else of the client changes.
\<close>

theorem setTokens_refresh_token:
  "setTokens t a i r h =
     h\<lparr>accessToken := a, idToken := i,
       refreshToken := (if truthy r then r else refreshToken h),
       tokenExpiresAt := Some (t + 8 * 60 * 60 * 1000)\<rparr> \<and>
   setTokens t a i JNull h =
     h\<lparr>accessToken := a, idToken := i, tokenExpiresAt := Some (t + 8 * 60 * 60 * 1000)\<rparr> \<and>
   setTokens t a i JUndefined h =
     h\<lparr>accessToken := a, idToken := i, tokenExpiresAt := Some (t + 8 * 60 * 60 * 1000)\<rparr> \<and>
   refreshToken (setTokens t a i JNull h) = refreshToken h \<and>
   refreshToken (setTokens t a i JUndefined h) = refreshToken h \<and>
   refreshToken (setTokens t a i (JStr (c # cs)) h) = JStr (c # cs)"
  by (cases r) (simp_all add: setTokens_def TOKEN_LIFETIME_MS_def Let_def)

theorem setTokens_refresh_token_witness:
  "refreshToken example_client = JStr ''r1'' \<and>
   refreshToken (setTokens 1000 (JStr ''a2'') (JStr ''i2'') JNull example_client) = JStr ''r1'' \<and>
   refreshToken (setTokens 1000 (JStr ''a2'') (JStr ''i2'') JUndefined example_client) = JStr ''r1'' \<and>
   refreshToken (setTokens 1000 (JStr ''a2'') (JStr ''i2'') (JStr ''r2'') example_client) = JStr ''r2'' \<and>
   accessToken (setTokens 1000 (JStr ''a2'') (JStr ''i2'') JNull example_client) = JStr ''a2'' \<and>
   idToken (setTokens 1000 (JStr ''a2'') (JStr ''i2'') JNull example_client) = JStr ''i2'' \<and>
   tokenExpiresAt (setTokens 1000 (JStr ''a2'') (JStr ''i2'') JNull example_client) = Some 28801000"
  using setTokens_refresh_token [of 1000 "JStr ''a2''" "JStr ''i2''" JNull example_client]
    setTokens_refresh_token [of 1000 "JStr ''a2''" "JStr ''i2''" "JStr ''r2''" example_client]
  by (simp add: example_client_def)

text \<open>
  The claim as first stated says that a non-null refresh token replaces the stored one;
  the empty string is not \<open>null\<close>, and the guard \<open>if (refreshToken)\<close> keeps the stored
  token.
\<close>

theorem setTokens_empty_refresh_counterexample:
  "JStr [] \<noteq> JNull \<and>
   refreshToken example_client = JStr ''r1'' \<and>
   refreshToken (setTokens 0 (JStr ''a2'') (JStr ''i2'') (JStr []) example_client) = JStr ''r1''"
  by (simp add: setTokens_def example_client_def Let_def)

subsection \<open>The authenticated request\<close>

lemma finish_request_cases:
  "(\<not> ok r \<longrightarrow> finish_request r = Inl (ApiRequestFailed (status r) (body_text r))) \<and>
   (ok r \<longrightarrow> finish_request r = (case body_json r of None \<Rightarrow> Inl JsonSyntaxError | Some j \<Rightarrow> Inr j))"
  by (simp add: finish_request_def)

lemma apiRequest_first_ok:
  assumes "ensureAuthenticated N t inflight h = (Inr (), s0, h0)"
    and "doFetch endpoint options h0 = (Inr r1, h1)"
    and "\<not> unauthorized r1"
  shows "apiRequest N t inflight endpoint options h = (finish_request r1, s0 @ [DoFetch], h1)"
  using assms by (simp add: apiRequest_def)

lemma apiRequest_refresh_fails:
  assumes "ensureAuthenticated N t inflight h = (Inr (), s0, h0)"
    and "doFetch endpoint options h0 = (Inr r1, h1)"
    and "unauthorized r1"
    and "safeRefresh N t inflight h1 = (Inl err, h2)"
  shows "apiRequest N t inflight endpoint options h =
           (Inl (AuthenticationFailedRefresh err), s0 @ [DoFetch, SafeRefresh],
            h2\<lparr>authenticated := False\<rparr>)"
  using assms by (simp add: apiRequest_def)

lemma apiRequest_retry:
  assumes "ensureAuthenticated N t inflight h = (Inr (), s0, h0)"
    and "doFetch endpoint options h0 = (Inr r1, h1)"
    and "unauthorized r1"
    and "safeRefresh N t inflight h1 = (Inr (), h2)"
    and "doFetch endpoint options h2 = (Inr r2, h3)"
  shows "apiRequest N t inflight endpoint options h =
           (if unauthorized r2
            then (Inl (AuthenticationFailedAfterRefresh (status r2) (body_text r2)),
                  s0 @ [DoFetch, SafeRefresh, DoFetch], h3\<lparr>authenticated := False\<rparr>)
            else (finish_request r2, s0 @ [DoFetch, SafeRefresh, DoFetch], h3))"
  using assms by (simp add: apiRequest_def)

lemma apiRequest_steps:
  "\<exists>s0. (s0 = [] \<or> s0 = [SafeRefresh]) \<and>
     fst (snd (apiRequest N t inflight endpoint options h)) \<in>
       {s0, s0 @ [DoFetch], s0 @ [DoFetch, SafeRefresh], s0 @ [DoFetch, SafeRefresh, DoFetch]}"
proof -
  obtain r s0 h0 where e: "ensureAuthenticated N t inflight h = (r, s0, h0)"
    by (cases "ensureAuthenticated N t inflight h") auto
  then have s: "s0 = [] \<or> s0 = [SafeRefresh]"
    by (auto simp: ensureAuthenticated_def split: if_splits prod.splits)
  have "fst (snd (apiRequest N t inflight endpoint options h)) \<in>
       {s0, s0 @ [DoFetch], s0 @ [DoFetch, SafeRefresh], s0 @ [DoFetch, SafeRefresh, DoFetch]}"
    using e by (auto simp: apiRequest_def split: sum.splits prod.splits)
  with s show ?thesis by blast
qed

lemmas example_session_defs = example_session_retry_def example_session_refresh_fails_def
  example_client_def response_401_def response_invalid_grant_def response_tokens_def
  response_cognito_def response_appliances_def example_options_def

lemmas session_defs = apiRequest_def ensureAuthenticated_def isAuthenticated_def expiring_def
  safeRefresh_def refreshAccessToken_def getCognitoToken_def doFetch_def fetch_def ok_def
  unauthorized_def finish_request_def valid_date_def TOKEN_EXPIRY_BUFFER_def js_get_def Let_def

text \<open>
  Claim C2, as amended. Take a call of \<open>_apiRequest\<close> that passed
  \<open>_ensureAuthenticated\<close> and got a first response. If that response is not a 401 or 403,
  it ends the call with no refresh and no retry. If it is a 401 or 403, a refresh is
  awaited once; when the refresh fails, the request is not retried, the error
  propagates and the session is marked unauthenticated; when the refresh succeeds, the
  request is sent exactly once more, and a second 401 or 403 ends the call with an
  error and marks the session unauthenticated. A response that ends the call and is
  not a success gives an error carrying its status and body; a success gives its body
  parsed as JSON.
\<close>

theorem apiRequest_retries_once:
  assumes "ensureAuthenticated N t inflight h = (Inr (), s0, h0)"
    and "doFetch endpoint options h0 = (Inr r1, h1)"
  shows "(\<not> unauthorized r1 \<longrightarrow>
            apiRequest N t inflight endpoint options h = (finish_request r1, s0 @ [DoFetch], h1)) \<and>
         (unauthorized r1 \<longrightarrow>
            (\<forall>err h2. safeRefresh N t inflight h1 = (Inl err, h2) \<longrightarrow>
               apiRequest N t inflight endpoint options h =
                 (Inl (AuthenticationFailedRefresh err), s0 @ [DoFetch, SafeRefresh],
                  h2\<lparr>authenticated := False\<rparr>)) \<and>
            (\<forall>h2 r2 h3.
               safeRefresh N t inflight h1 = (Inr (), h2) \<and>
               doFetch endpoint options h2 = (Inr r2, h3) \<longrightarrow>
               apiRequest N t inflight endpoint options h =
                 (if unauthorized r2
                  then (Inl (AuthenticationFailedAfterRefresh (status r2) (body_text r2)),
                        s0 @ [DoFetch, SafeRefresh, DoFetch], h3\<lparr>authenticated := False\<rparr>)
                  else (finish_request r2, s0 @ [DoFetch, SafeRefresh, DoFetch], h3)))) \<and>
         (\<forall>r. (\<not> ok r \<longrightarrow> finish_request r = Inl (ApiRequestFailed (status r) (body_text r))) \<and>
              (ok r \<longrightarrow> finish_request r =
                 (case body_json r of None \<Rightarrow> Inl JsonSyntaxError | Some j \<Rightarrow> Inr j)))"
  using apiRequest_first_ok [OF assms] apiRequest_refresh_fails [OF assms]
    apiRequest_retry [OF assms] finish_request_cases
  by blast

theorem apiRequest_retries_once_witness:
  "isAuthenticated 1000 example_session_retry \<and>
   hd (net example_session_retry) = Response response_401 \<and> unauthorized response_401 \<and>
   fst (apiRequest dec_number 1000 None ''/commands/v1/appliance'' example_options
          example_session_retry) = Inr (JObj [(''payload'', JObj [])]) \<and>
   fst (snd (apiRequest dec_number 1000 None ''/commands/v1/appliance'' example_options
          example_session_retry)) = [DoFetch, SafeRefresh, DoFetch]"
proof -
  let ?ep = "''/commands/v1/appliance''"
  define h1 where "h1 = snd (doFetch ?ep example_options example_session_retry)"
  define h2 where "h2 = snd (safeRefresh dec_number 1000 None h1)"
  define h3 where "h3 = snd (doFetch ?ep example_options h2)"
  have a: "isAuthenticated 1000 example_session_retry"
    by (simp add: example_session_defs session_defs)
  then have e: "ensureAuthenticated dec_number 1000 None example_session_retry
                  = (Inr (), [], example_session_retry)"
    by (simp add: ensureAuthenticated_def)
  have f1: "doFetch ?ep example_options example_session_retry = (Inr response_401, h1)"
    by (simp add: h1_def example_session_defs session_defs)
  have n1: "net h1 = [Response response_tokens, Response response_cognito, Response response_appliances]"
    and rt1: "refreshToken h1 = JStr ''r1''"
    by (simp_all add: h1_def example_session_defs session_defs)
  have u: "unauthorized response_401" and n: "hd (net example_session_retry) = Response response_401"
    by (simp_all add: example_session_defs unauthorized_def)
  have r: "safeRefresh dec_number 1000 None h1 = (Inr (), h2)"
    and n2: "net h2 = [Response response_appliances]"
    unfolding h2_def
    by (simp_all add: n1 rt1 safeRefresh_def refreshAccessToken_def getCognitoToken_def fetch_def
        ok_def valid_date_def js_get_def Let_def response_tokens_def response_cognito_def)
  have f2: "doFetch ?ep example_options h2 = (Inr response_appliances, h3)"
    by (simp add: h3_def n2 doFetch_def fetch_def)
  have v: "\<not> unauthorized response_appliances"
    "finish_request response_appliances = Inr (JObj [(''payload'', JObj [])])"
    by (simp_all add: response_appliances_def unauthorized_def finish_request_def ok_def)
  from apiRequest_retries_once [OF e f1] u r f2 v have
    "apiRequest dec_number 1000 None ?ep example_options example_session_retry =
       (Inr (JObj [(''payload'', JObj [])]), [] @ [DoFetch, SafeRefresh, DoFetch], h3)"
    by metis
  with a n u show ?thesis by simp
qed

text \<open>
  The claim as first stated says that after a first 401 or 403 the request is retried
  exactly once. When the refresh itself is refused the request is not retried: the call
  made one request to the API and one to the token endpoint.
\<close>

theorem apiRequest_refresh_fails_counterexample:
  "isAuthenticated 1000 example_session_refresh_fails \<and>
   hd (net example_session_refresh_fails) = Response response_401 \<and>
   status response_401 = 401 \<and>
   fst (apiRequest dec_number 1000 None ''/commands/v1/appliance'' example_options
          example_session_refresh_fails)
     = Inl (AuthenticationFailedRefresh (TokenRefreshFailed 400 ''invalid_grant'')) \<and>
   fst (snd (apiRequest dec_number 1000 None ''/commands/v1/appliance'' example_options
          example_session_refresh_fails)) = [DoFetch, SafeRefresh] \<and>
   map req_url (fetched (snd (snd (apiRequest dec_number 1000 None ''/commands/v1/appliance''
          example_options example_session_refresh_fails))))
     = [''https://api-iot.he.services/commands/v1/appliance'',
        ''https://account2.hon-smarthome.com/services/oauth2/token'']"
  by (simp add: example_session_defs session_defs API_URL_def AUTH_API_def or_str_def)

section \<open>The refresh guard among concurrent callers\<close>


lemma call_idle:
  assumes "refreshPromise s = None"
  shows "refreshPromise (call_safeRefresh c s) = Some (promises s) \<and>
         promises (call_safeRefresh c s) = promises s + 1 \<and>
         awaited (call_safeRefresh c s) = awaited s @ [(c, promises s)] \<and>
         client (call_safeRefresh c s) = client s \<and>
         settled (call_safeRefresh c s) = settled s"
  using assms by (simp add: call_safeRefresh_def Let_def)


lemma settle_in_flight:
  assumes "refreshPromise s = Some p"
  shows "refreshPromise (settle N t s) = None \<and>
         promises (settle N t s) = promises s \<and>
         awaited (settle N t s) = awaited s \<and>
         settled (settle N t s) = settled s @ [(p, fst (refreshAccessToken N t (client s)))] \<and>
         client (settle N t s) = snd (refreshAccessToken N t (client s))"
  using assms by (simp add: settle_def split: prod.splits)

lemma fetched_fetch: "fetched (snd (fetch rq h)) = fetched h @ [rq]"
  by (simp add: fetch_def Let_def split: list.splits fetch_result.splits)

lemma requested_getCognitoToken:
  "requested h (snd (getCognitoToken h)) = [API_URL @ ''/auth/v1/login'']"
proof -
  have "fetched (snd (getCognitoToken h)) =
          fetched h @ [\<lparr> req_url = API_URL @ ''/auth/v1/login'', req_method = ''POST'',
                          req_credentials = [(''id-token'', idToken h)] \<rparr>]"
    using fetched_fetch [of "\<lparr> req_url = API_URL @ ''/auth/v1/login'', req_method = ''POST'',
                          req_credentials = [(''id-token'', idToken h)] \<rparr>" h]
    by (auto simp: getCognitoToken_def split: prod.splits sum.splits option.splits)
  then show ?thesis by (simp add: requested_def)
qed










lemma single_caller_is_safeRefresh:
  assumes "refreshPromise s = None"
  shows "client (settle N t (call_safeRefresh c s)) = snd (safeRefresh N t None (client s)) \<and>
         settled (settle N t (call_safeRefresh c s)) =
           settled s @ [(promises s, fst (safeRefresh N t None (client s)))] \<and>
         refreshPromise (settle N t (call_safeRefresh c s)) = None"
  using call_idle [OF assms, of c] settle_in_flight [of "call_safeRefresh c s" "promises s" N t]
  by (simp add: safeRefresh_def)




end
